theory Spec2Isabelle
  imports Complex_Main "HOL-Library.Sublist" "HOL-Library.Log_Nat"
begin

section \<open>JavaScript values and strings\<close>

text \<open>
  The front end is plain JavaScript (\<^verbatim>\<open>script.js\<close>). Values that reach the functions
  verified here are the primitives of a parsed JSON document, and the members that every
  object literal inherits from \<^verbatim>\<open>Object.prototype\<close>.

  A number is a double. The integers below \<open>2\<^sup>5\<^sup>3\<close> in magnitude are the ones a double holds
  exactly and \<^verbatim>\<open>String\<close> prints digit by digit; beyond them \<^verbatim>\<open>String\<close> prints the
  shortest digits that read back to the same double, and an exponent from \<open>10\<^sup>2\<^sup>1\<close> on. Only
  the former are values of the model: \<open>JNum\<close> holds a \<open>safe_int\<close>.
\<close>

typedef safe_int = "{i :: int. \<bar>i\<bar> < 2 ^ 53}"
  by (rule exI [of _ 0]) simp

datatype prim = Undefined | Null | JBool bool | JNum safe_int | JNaN | JStr string

text \<open>Decimal digits of a natural number, as \<^verbatim>\<open>String(n)\<close> prints an integer.\<close>

definition digit_char :: "nat \<Rightarrow> char" where
  "digit_char d = ''0123456789'' ! d"

fun string_of_nat :: "nat \<Rightarrow> string" where
  "string_of_nat n =
     (if n < 10 then [digit_char n] else string_of_nat (n div 10) @ [digit_char (n mod 10)])"

declare string_of_nat.simps [simp del]

definition string_of_int :: "int \<Rightarrow> string" where
  "string_of_int i = (if i < 0 then CHR ''-'' # string_of_nat (nat (- i)) else string_of_nat (nat i))"

text \<open>Reading decimal digits back: the value of a digit, and of a string of digits.\<close>

definition digit_value :: "char \<Rightarrow> nat" where
  "digit_value c = length (takeWhile (\<lambda>x. x \<noteq> c) ''0123456789'')"

definition decimal_value :: "string \<Rightarrow> nat" where
  "decimal_value s = foldl (\<lambda>a c. 10 * a + digit_value c) 0 s"

text \<open>\<^verbatim>\<open>String(v)\<close> on a primitive.\<close>

fun js_String :: "prim \<Rightarrow> string" where
  "js_String Undefined = ''undefined''"
| "js_String Null = ''null''"
| "js_String (JBool b) = (if b then ''true'' else ''false'')"
| "js_String (JNum n) = string_of_int (Rep_safe_int n)"
| "js_String JNaN = ''NaN''"
| "js_String (JStr s) = s"



section \<open>escapeHtml\<close>


text \<open>The entities the function emits, without their leading ampersand.\<close>

definition entity_tails :: "string list" where
  "entity_tails = [''amp;'', ''lt;'', ''gt;'', ''quot;'', ''#039;'']"

text \<open>Every ampersand of a string starts one of the emitted entities.\<close>

fun amps_ok :: "string \<Rightarrow> bool" where
  "amps_ok [] = True"
| "amps_ok (x # xs) =
     ((if x = CHR ''&'' then list_ex (\<lambda>e. prefix e xs) entity_tails else True) \<and> amps_ok xs)"



section \<open>The document\<close>

text \<open>
  \<^verbatim>\<open>document.getElementById(id)\<close> returns an element or \<^verbatim>\<open>null\<close>; the functions below
  return at once when an element they need is missing. An element carries the three things
  the code writes: \<^verbatim>\<open>style.display\<close>, its content (set through \<^verbatim>\<open>textContent\<close> or through
  \<^verbatim>\<open>innerHTML\<close>) and its \<^verbatim>\<open>classList\<close>.
\<close>

datatype content = Text string | Html string

record element =
  display :: string
  content :: content
  classList :: "string list"

type_synonym dom = "string \<Rightarrow> element option"

definition classList_add :: "string \<Rightarrow> string list \<Rightarrow> string list" where
  "classList_add c cs = (if c \<in> set cs then cs else cs @ [c])"

definition classList_remove :: "string \<Rightarrow> string list \<Rightarrow> string list" where
  "classList_remove c cs = removeAll c cs"

text \<open>
  \<^verbatim>\<open>
  function setText(id, value) {
    const el = document.getElementById(id);
    if (el) el.textContent = String(value);
  }
  \<close>
  The caller passes the value already converted by \<^verbatim>\<open>String\<close>.
\<close>

definition setText :: "string \<Rightarrow> string \<Rightarrow> dom \<Rightarrow> dom" where
  "setText ident str d =
     (case d ident of None \<Rightarrow> d | Some el \<Rightarrow> d(ident \<mapsto> el\<lparr>content := Text str\<rparr>))"

section \<open>Notifications\<close>

text \<open>
  The payload of \<^verbatim>\<open>GET /notifications/\<close> as the front end reads it: three lists of items
  and \<^verbatim>\<open>total_count\<close>. The items are rendered by \<^verbatim>\<open>renderNotificationItem\<close>, whose text
  depends on the browser's locale (\<^verbatim>\<open>toLocaleString\<close>); it is a parameter of the model.
\<close>

record 'i notification_data =
  today :: "'i list"
  tomorrow :: "'i list"
  this_week :: "'i list"
  total_count :: int

text \<open>
  Modelled from the spec: the service that builds the payload is not part of the sources.
  The spec's output contract of the ReminderClassifier: the three lists \<^emph>\<open>plus a totalCount
  equal to the sum of the three list lengths\<close>.
\<close>

definition reminder_payload :: "'i list \<Rightarrow> 'i list \<Rightarrow> 'i list \<Rightarrow> 'i notification_data" where
  "reminder_payload td tm wk =
     \<lparr>today = td, tomorrow = tm, this_week = wk,
      total_count = int (length td + length tm + length wk)\<rparr>"

text \<open>
  \<^verbatim>\<open>
  function updateNotificationBadge(count) {
    const badge = document.getElementById("notificationBadge");
    const bell = document.getElementById("notificationBell");
    if (!badge || !bell) return;

    if (count > 0) {
      badge.style.display = "flex";
      badge.textContent = count > 9 ? "9+" : String(count);
      bell.classList.add("has-notifications");
    } else {
      badge.style.display = "none";
      badge.textContent = "0";
      bell.classList.remove("has-notifications");
    }
  }
  \<close>
  \<^verbatim>\<open>String(count)\<close> is reached for a count from 1 to 9 only, a safe integer.
\<close>

definition updateNotificationBadge :: "int \<Rightarrow> dom \<Rightarrow> dom" where
  "updateNotificationBadge count d =
     (case (d ''notificationBadge'', d ''notificationBell'') of
        (Some badge, Some bell) \<Rightarrow>
          if count > 0 then
            d(''notificationBadge'' \<mapsto>
                badge\<lparr>display := ''flex'',
                      content :=
                        Text (if count > 9 then ''9+'' else js_String (JNum (Abs_safe_int count)))\<rparr>,
              ''notificationBell'' \<mapsto>
                bell\<lparr>classList := classList_add ''has-notifications'' (classList bell)\<rparr>)
          else
            d(''notificationBadge'' \<mapsto> badge\<lparr>display := ''none'', content := Text ''0''\<rparr>,
              ''notificationBell'' \<mapsto>
                bell\<lparr>classList := classList_remove ''has-notifications'' (classList bell)\<rparr>)
      | _ \<Rightarrow> d)"

text \<open>
  \<^verbatim>\<open>
  function renderNotificationDropdown(data) {
    const body = document.getElementById("notificationDropdownBody");
    if (!body) return;

    if (data.total_count === 0) {
      body.innerHTML = '<p class="notification-empty">Nenhuma entrevista proxima</p>';
      return;
    }

    let html = "";
    if (data.today.length > 0) {
      html += '<div class="notification-category today">Hoje</div>';
      html += data.today.map(item => renderNotificationItem(item, "today")).join("");
    }
    if (data.tomorrow.length > 0) {
      html += '<div class="notification-category tomorrow">Amanha</div>';
      html += data.tomorrow.map(item => renderNotificationItem(item, "tomorrow")).join("");
    }
    if (data.this_week.length > 0) {
      html += '<div class="notification-category this-week">Esta Semana</div>';
      html += data.this_week.map(item => renderNotificationItem(item, "this-week")).join("");
    }
    body.innerHTML = html;
  }
  \<close>
\<close>

definition notification_empty :: string where
  "notification_empty = ''<p class=\"notification-empty\">Nenhuma entrevista proxima</p>''"

definition notification_section ::
  "('i \<Rightarrow> string \<Rightarrow> string) \<Rightarrow> string \<Rightarrow> string \<Rightarrow> 'i list \<Rightarrow> string" where
  "notification_section renderNotificationItem header category items =
     (if length items > 0
      then header @ concat (map (\<lambda>item. renderNotificationItem item category) items)
      else [])"

definition notification_html :: "('i \<Rightarrow> string \<Rightarrow> string) \<Rightarrow> 'i notification_data \<Rightarrow> string" where
  "notification_html renderNotificationItem data =
     notification_section renderNotificationItem
        ''<div class=\"notification-category today\">Hoje</div>'' ''today'' (today data)
     @ notification_section renderNotificationItem
        ''<div class=\"notification-category tomorrow\">Amanha</div>'' ''tomorrow'' (tomorrow data)
     @ notification_section renderNotificationItem
        ''<div class=\"notification-category this-week\">Esta Semana</div>'' ''this-week''
        (this_week data)"

definition renderNotificationDropdown ::
  "('i \<Rightarrow> string \<Rightarrow> string) \<Rightarrow> 'i notification_data \<Rightarrow> dom \<Rightarrow> dom" where
  "renderNotificationDropdown renderNotificationItem data d =
     (case d ''notificationDropdownBody'' of
        None \<Rightarrow> d
      | Some body \<Rightarrow>
          if total_count data = 0
          then d(''notificationDropdownBody'' \<mapsto> body\<lparr>content := Html notification_empty\<rparr>)
          else d(''notificationDropdownBody'' \<mapsto>
                   body\<lparr>content := Html (notification_html renderNotificationItem data)\<rparr>))"

text \<open>
  \<^verbatim>\<open>
  async function showLoginReminders() {
    if (!token) return;
    try {
      const response = await fetch(apiUrl(ENDPOINTS.notifications), { headers: authHeader() });
      if (response.ok) {
        const data = await safeJson(response);
        if (!data) return;

        if (data.today.length > 0) {
          const count = data.today.length;
          const msg = count === 1
            ? "Voce tem 1 entrevista hoje!"
            : `Voce tem ${count} entrevistas hoje!`;
          setTimeout(() => showToast(msg, "error"), 3500);
        } else if (data.tomorrow.length > 0) {
          const count = data.tomorrow.length;
          const msg = count === 1
            ? "Voce tem 1 entrevista amanha"
            : `Voce tem ${count} entrevistas amanha`;
          setTimeout(() => showToast(msg, "success"), 3500);
        }
      }
    } catch (err) {
      // Silently fail
    }
  }
  \<close>
  The session token is a string or \<^verbatim>\<open>null\<close>. The request either fails (the \<^verbatim>\<open>catch\<close>
  swallows it) or yields a response with its \<^verbatim>\<open>ok\<close> flag and the value \<^verbatim>\<open>safeJson\<close> reads
  from it (\<open>None\<close> for \<^verbatim>\<open>null\<close>). The effect is the toast the function schedules, if any.
\<close>

datatype 'i fetched = FetchFailed | Response bool "'i notification_data option"

record toast =
  delay_ms :: nat
  message :: string
  toast_type :: string

definition token_truthy :: "string option \<Rightarrow> bool" where
  "token_truthy token = (case token of None \<Rightarrow> False | Some t \<Rightarrow> t \<noteq> [])"

definition showLoginReminders :: "string option \<Rightarrow> 'i fetched \<Rightarrow> toast option" where
  "showLoginReminders token response =
     (if \<not> token_truthy token then None
      else case response of
        FetchFailed \<Rightarrow> None
      | Response ok body \<Rightarrow>
          if \<not> ok then None
          else case body of
            None \<Rightarrow> None
          | Some data \<Rightarrow>
              if length (today data) > 0 then
                (let count = length (today data);
                     msg = (if count = 1 then ''Voce tem 1 entrevista hoje!''
                            else ''Voce tem '' @ string_of_nat count @ '' entrevistas hoje!'')
                 in Some \<lparr>delay_ms = 3500, message = msg, toast_type = ''error''\<rparr>)
              else if length (tomorrow data) > 0 then
                (let count = length (tomorrow data);
                     msg = (if count = 1 then ''Voce tem 1 entrevista amanha''
                            else ''Voce tem '' @ string_of_nat count @ '' entrevistas amanha'')
                 in Some \<lparr>delay_ms = 3500, message = msg, toast_type = ''success''\<rparr>)
              else None)"

section \<open>safeJson\<close>

text \<open>
  \<^verbatim>\<open>
  async function safeJson(response) {
    try {
      const text = await response.text();
      if (!text) return null;
      return JSON.parse(text);
    } catch {
      return null;
    }
  }
  \<close>
  Reading the body can fail (the promise of \<^verbatim>\<open>response.text()\<close> rejects) and
  \<^verbatim>\<open>JSON.parse\<close> throws a \<^verbatim>\<open>SyntaxError\<close> on text that is not JSON. Both are results of
  the sum type \<open>js_error + 'a\<close>; \<^verbatim>\<open>JSON.parse\<close> is the runtime's and is a parameter.
\<close>

datatype js_error = TypeError | SyntaxError | BodyError

datatype json =
    JNull
  | JBoolean bool
  | JNumber int
  | JString string
  | JArray "json list"
  | JObject "(string \<times> json) list"

definition try_catch :: "js_error + 'a \<Rightarrow> (js_error \<Rightarrow> js_error + 'a) \<Rightarrow> js_error + 'a" where
  "try_catch body handler = (case body of Inl e \<Rightarrow> handler e | Inr v \<Rightarrow> Inr v)"

definition safeJson :: "(string \<Rightarrow> js_error + json) \<Rightarrow> (js_error + string) \<Rightarrow> js_error + json" where
  "safeJson JSON_parse response_text =
     try_catch
       (case response_text of
          Inl e \<Rightarrow> Inl e
        | Inr text \<Rightarrow> if text = [] then Inr JNull else JSON_parse text)
       (\<lambda>_. Inr JNull)"

section \<open>Status of an application\<close>

text \<open>
  A property read \<^verbatim>\<open>obj[key]\<close> on an object literal finds an own property, or a member
  inherited from \<^verbatim>\<open>Object.prototype\<close>, or nothing (\<^verbatim>\<open>undefined\<close>). The inherited
  members are the built-in functions of \<^verbatim>\<open>Object.prototype\<close> and its accessor
  \<^verbatim>\<open>__proto__\<close>; all of them are objects, hence truthy and different from
  \<^verbatim>\<open>undefined\<close>.
\<close>

datatype 'a jsval = Value 'a | ProtoMember string | Undef

definition object_prototype_names :: "string list" where
  "object_prototype_names =
     [''constructor'', ''hasOwnProperty'', ''isPrototypeOf'', ''propertyIsEnumerable'',
      ''toLocaleString'', ''toString'', ''valueOf'', ''__proto__'',
      ''__defineGetter__'', ''__defineSetter__'', ''__lookupGetter__'', ''__lookupSetter__'']"

definition js_get :: "(string \<rightharpoonup> 'a) \<Rightarrow> string \<Rightarrow> 'a jsval" where
  "js_get own key =
     (case own key of
        Some v \<Rightarrow> Value v
      | None \<Rightarrow> if key \<in> set object_prototype_names then ProtoMember key else Undef)"

text \<open>\<^verbatim>\<open>a || b\<close> where \<open>a\<close> was read from an object of strings and \<open>b\<close> is a string.\<close>

definition js_or :: "string jsval \<Rightarrow> string \<Rightarrow> string jsval" where
  "js_or a b =
     (case a of
        Value s \<Rightarrow> if s \<noteq> [] then Value s else Value b
      | ProtoMember n \<Rightarrow> ProtoMember n
      | Undef \<Rightarrow> Value b)"

text \<open>
  The four emoji of the source, as their UTF-8 bytes: U+23F3, U+1F3AF, U+274C and U+1F4DD.
\<close>

definition icon_esperando :: string where
  "icon_esperando = [CHR 0xE2, CHR 0x8F, CHR 0xB3]"

definition icon_entrevista :: string where
  "icon_entrevista = [CHR 0xF0, CHR 0x9F, CHR 0x8E, CHR 0xAF]"

definition icon_rejeitado :: string where
  "icon_rejeitado = [CHR 0xE2, CHR 0x9D, CHR 0x8C]"

definition icon_default :: string where
  "icon_default = [CHR 0xF0, CHR 0x9F, CHR 0x93, CHR 0x9D]"

text \<open>
  \<^verbatim>\<open>
  function getStatusIcon(status) {
    const icons = { esperando: "...", entrevista: "...", rejeitado: "..." };
    return icons[status] || "...";
  }
  function getStatusText(status) {
    const texts = { esperando: "Esperando", entrevista: "Entrevista", rejeitado: "Rejeitado" };
    return texts[status] || status;
  }
  \<close>
\<close>

definition icons :: "string \<rightharpoonup> string" where
  "icons = [''esperando'' \<mapsto> icon_esperando, ''entrevista'' \<mapsto> icon_entrevista,
            ''rejeitado'' \<mapsto> icon_rejeitado]"

definition texts :: "string \<rightharpoonup> string" where
  "texts = [''esperando'' \<mapsto> ''Esperando'', ''entrevista'' \<mapsto> ''Entrevista'',
            ''rejeitado'' \<mapsto> ''Rejeitado'']"

definition getStatusIcon :: "string \<Rightarrow> string jsval" where
  "getStatusIcon status = js_or (js_get icons status) icon_default"

definition getStatusText :: "string \<Rightarrow> string jsval" where
  "getStatusText status = js_or (js_get texts status) status"

definition known_statuses :: "string set" where
  "known_statuses = {''esperando'', ''entrevista'', ''rejeitado''}"

section \<open>updateStats\<close>

text \<open>
  \<^verbatim>\<open>
  function updateStats(applications) {
    const stats = { esperando: 0, entrevista: 0, rejeitado: 0, total: applications.length };

    applications.forEach((app) => {
      if (stats[app.status] !== undefined) stats[app.status]++;
    });

    setText("statEsperando", stats.esperando);
    setText("statEntrevista", stats.entrevista);
    setText("statRejeitado", stats.rejeitado);
    setText("statTotal", stats.total);
  }
  \<close>
  An application as the API returns it; only \<open>status\<close> is read here.
\<close>

record application =
  app_id :: int
  nome :: string
  empresa :: string
  role :: string
  data :: string
  status :: string
  chance :: int

text \<open>
  The values the local object \<^verbatim>\<open>stats\<close> can hold: an integer, or \<^verbatim>\<open>NaN\<close> once \<^verbatim>\<open>++\<close> has been
  applied to something that is not a number. The object is the map of its own properties.
  An array has fewer than \<open>2\<^sup>3\<^sup>2\<close> elements, so a counter stays far below \<open>2\<^sup>5\<^sup>3\<close> and
  \<^verbatim>\<open>String\<close> prints its digits.
\<close>

datatype counter = Count int | NaN

type_synonym stats_object = "string \<rightharpoonup> counter"

text \<open>\<^verbatim>\<open>ToNumeric\<close> of what a property read returns: an inherited member is an object and
  converts to \<^verbatim>\<open>NaN\<close>, as \<^verbatim>\<open>undefined\<close> does.\<close>

fun to_numeric :: "counter jsval \<Rightarrow> counter" where
  "to_numeric (Value c) = c"
| "to_numeric (ProtoMember n) = NaN"
| "to_numeric Undef = NaN"

fun counter_succ :: "counter \<Rightarrow> counter" where
  "counter_succ (Count i) = Count (i + 1)"
| "counter_succ NaN = NaN"

text \<open>
  The assignment \<^verbatim>\<open>obj[key] = v\<close> creates or overwrites an own property, except under the
  name \<^verbatim>\<open>__proto__\<close>: that is the accessor of \<^verbatim>\<open>Object.prototype\<close>, whose setter ignores
  a value that is neither an object nor \<^verbatim>\<open>null\<close>.
\<close>

definition js_put :: "stats_object \<Rightarrow> string \<Rightarrow> counter \<Rightarrow> stats_object" where
  "js_put obj key v = (if key = ''__proto__'' then obj else obj(key \<mapsto> v))"

text \<open>One turn of the \<^verbatim>\<open>forEach\<close>.\<close>

definition count_status :: "stats_object \<Rightarrow> application \<Rightarrow> stats_object" where
  "count_status stats app =
     (if js_get stats (status app) \<noteq> Undef
      then js_put stats (status app) (counter_succ (to_numeric (js_get stats (status app))))
      else stats)"

definition initial_stats :: "application list \<Rightarrow> stats_object" where
  "initial_stats applications =
     [''esperando'' \<mapsto> Count 0, ''entrevista'' \<mapsto> Count 0, ''rejeitado'' \<mapsto> Count 0,
      ''total'' \<mapsto> Count (int (length applications))]"

definition status_counts :: "application list \<Rightarrow> stats_object" where
  "status_counts applications = foldl count_status (initial_stats applications) applications"

text \<open>
  \<^verbatim>\<open>String(stats.esperando)\<close> and its three siblings. None of the four names is a member of
  \<^verbatim>\<open>Object.prototype\<close>, so the read is the own property, or \<^verbatim>\<open>undefined\<close>.
\<close>

fun counter_String :: "counter option \<Rightarrow> string" where
  "counter_String (Some (Count i)) = string_of_int i"
| "counter_String (Some NaN) = ''NaN''"
| "counter_String None = ''undefined''"

definition updateStats :: "application list \<Rightarrow> dom \<Rightarrow> dom" where
  "updateStats applications d =
     (let stats = status_counts applications;
          d1 = setText ''statEsperando'' (counter_String (stats ''esperando'')) d;
          d2 = setText ''statEntrevista'' (counter_String (stats ''entrevista'')) d1;
          d3 = setText ''statRejeitado'' (counter_String (stats ''rejeitado'')) d2
      in setText ''statTotal'' (counter_String (stats ''total'')) d3)"

text \<open>The number of applications that carry a status.\<close>

definition with_status :: "string \<Rightarrow> application list \<Rightarrow> nat" where
  "with_status st applications = length (filter (\<lambda>app. status app = st) applications)"

section \<open>Numbers\<close>

text \<open>
  A JavaScript number is an IEEE 754 double. A finite double is a rational; every
  arithmetic operation returns the exact result rounded to the nearest double, ties to the
  even significand. \<open>fl\<close> is that rounding for 53-bit significands. The exponent range is
  not modelled: the theorems below bound the counts and the time differences by \<open>2\<^sup>5\<^sup>3\<close>,
  and then every value that occurs is zero or lies between \<open>2\<^sup>-\<^sup>5\<^sup>3\<close> and \<open>2\<^sup>5\<^sup>3\<close> in
  magnitude, far from overflow and underflow. \<open>NonFinite\<close> stands for \<^verbatim>\<open>Infinity\<close>,
  \<^verbatim>\<open>-Infinity\<close> and \<^verbatim>\<open>NaN\<close>: what a division by zero or an invalid date produces.
\<close>

definition round_half_even :: "rat \<Rightarrow> int" where
  "round_half_even y =
     (let f = \<lfloor>y\<rfloor>; d = y - of_int f
      in if d < 1/2 then f else if 1/2 < d then f + 1 else if even f then f else f + 1)"

text \<open>The \<open>e\<close> with \<open>2\<^sup>e \<le> x < 2\<^sup>e\<^sup>+\<^sup>1\<close>, for positive \<open>x\<close>.\<close>

definition binary_exponent :: "rat \<Rightarrow> int" where
  "binary_exponent x =
     (let (p, q) = quotient_of x; d = bitlen p - bitlen q
      in if 2 powi d \<le> x then d else d - 1)"

definition fl :: "rat \<Rightarrow> rat" where
  "fl x =
     (if x = 0 then 0
      else let u = 2 powi (binary_exponent \<bar>x\<bar> - 52)
           in sgn x * of_int (round_half_even (\<bar>x\<bar> / u)) * u)"

datatype number = Finite rat | NonFinite

text \<open>A decimal integer of a JSON document, read as a number.\<close>

definition number_of_nat :: "nat \<Rightarrow> number" where
  "number_of_nat n = Finite (fl (of_nat n))"

fun js_div :: "number \<Rightarrow> number \<Rightarrow> number" where
  "js_div (Finite a) (Finite b) = (if b = 0 then NonFinite else Finite (fl (a / b)))"
| "js_div _ _ = NonFinite"

fun js_mul :: "number \<Rightarrow> number \<Rightarrow> number" where
  "js_mul (Finite a) (Finite b) = Finite (fl (a * b))"
| "js_mul _ _ = NonFinite"

fun js_sub :: "number \<Rightarrow> number \<Rightarrow> number" where
  "js_sub (Finite a) (Finite b) = Finite (fl (a - b))"
| "js_sub _ _ = NonFinite"

fun js_gt :: "number \<Rightarrow> number \<Rightarrow> bool" where
  "js_gt (Finite a) (Finite b) = (a > b)"
| "js_gt _ _ = False"

text \<open>\<^verbatim>\<open>Math.round\<close> rounds to the nearest integer, a tie towards \<open>+\<infinity>\<close>; \<^verbatim>\<open>Math.floor\<close>
  rounds down. Both are exact.\<close>

fun Math_round :: "number \<Rightarrow> number" where
  "Math_round (Finite x) = Finite (of_int \<lfloor>x + 1/2\<rfloor>)"
| "Math_round NonFinite = NonFinite"

fun Math_floor :: "number \<Rightarrow> number" where
  "Math_floor (Finite x) = Finite (of_int \<lfloor>x\<rfloor>)"
| "Math_floor NonFinite = NonFinite"

section \<open>renderStats\<close>

text \<open>
  The object of \<^verbatim>\<open>GET /users/me/stats\<close> as \<^verbatim>\<open>renderStats\<close> reads it. The counts are
  integers; a date is an ISO string or \<^verbatim>\<open>null\<close>.
\<close>

record stats =
  total :: nat
  esperando :: nat
  entrevista :: nat
  rejeitado :: nat
  taxa_conversao :: int
  empresa_top :: "string option"
  empresa_top_count :: nat
  mes_mais_ativo :: "string option"
  mes_mais_ativo_count :: nat
  primeira_candidatura :: "string option"
  ultima_entrevista :: "string option"

text \<open>
  \<^verbatim>\<open>
  const percEsperando = stats.total > 0 ? Math.round((stats.esperando / stats.total) * 100) : 0;
  const percEntrevista = stats.total > 0 ? Math.round((stats.entrevista / stats.total) * 100) : 0;
  const percRejeitado = stats.total > 0 ? Math.round((stats.rejeitado / stats.total) * 100) : 0;
  \<close>
  The three lines are one expression of a count and the total.
\<close>

definition perc :: "nat \<Rightarrow> nat \<Rightarrow> number" where
  "perc count tot =
     (if js_gt (number_of_nat tot) (Finite 0)
      then Math_round (js_mul (js_div (number_of_nat count) (number_of_nat tot)) (Finite 100))
      else Finite 0)"

text \<open>
  \<^verbatim>\<open>
  let diasUso = 0;
  if (stats.primeira_candidatura) {
    const primeira = new Date(stats.primeira_candidatura);
    const hoje = new Date();
    diasUso = Math.floor((hoje - primeira) / (1000 * 60 * 60 * 24));
  }
  \<close>
  \<^verbatim>\<open>new Date(s)\<close> parses a string to a time value in milliseconds, or to an invalid date,
  whose time value is \<^verbatim>\<open>NaN\<close>; the parser is the runtime's and is a parameter.
  \<^verbatim>\<open>new Date()\<close> reads the clock of the machine: the time value \<open>clock\<close>.
\<close>

definition time_value :: "int option \<Rightarrow> number" where
  "time_value t = (case t of None \<Rightarrow> NonFinite | Some ms \<Rightarrow> Finite (of_int ms))"

definition ms_per_day :: rat where
  "ms_per_day = 1000 * 60 * 60 * 24"

definition diasUso :: "(string \<Rightarrow> int option) \<Rightarrow> int \<Rightarrow> string option \<Rightarrow> number" where
  "diasUso Date_parse clock first_date =
     (case first_date of
        None \<Rightarrow> Finite 0
      | Some s \<Rightarrow>
          if s = [] then Finite 0
          else (let primeira = time_value (Date_parse s);
                    hoje = time_value (Some clock)
                in Math_floor (js_div (js_sub hoje primeira) (Finite ms_per_day))))"

text \<open>
  What \<^verbatim>\<open>renderStats\<close> writes into the container: the empty state, or the three cards. The
  markup of the cards is constant; the record holds the values interpolated into it (the
  dates and the month before their formatting, which depends on the locale).
\<close>

record stats_cards =
  shown_total :: nat
  shown_esperando :: nat
  percEsperando :: number
  shown_entrevista :: nat
  percEntrevista :: number
  shown_rejeitado :: nat
  percRejeitado :: number
  shown_taxa_conversao :: int
  taxa_class :: string
  shown_empresa_top :: "(string \<times> nat) option"
  shown_mes_mais_ativo :: "(string \<times> nat) option"
  shown_primeira_candidatura :: "string option"
  shown_ultima_entrevista :: "string option"
  shown_diasUso :: number

datatype stats_html = EmptyStats | StatsCards stats_cards

text \<open>The world \<^verbatim>\<open>renderStats(stats)\<close> runs in: the document and the clock of the machine.\<close>

record world =
  document :: dom
  clock_ms :: int

definition truthy_string :: "string option \<Rightarrow> string option" where
  "truthy_string s = (case s of None \<Rightarrow> None | Some t \<Rightarrow> if t = [] then None else Some t)"

text \<open>
  The result is the new \<^verbatim>\<open>innerHTML\<close> of \<^verbatim>\<open>statsContainer\<close>, or \<open>None\<close> when the document
  has no such element and the function returns at once.
\<close>

definition renderStats :: "(string \<Rightarrow> int option) \<Rightarrow> stats \<Rightarrow> world \<Rightarrow> stats_html option" where
  "renderStats Date_parse s w =
     (case document w ''statsContainer'' of
        None \<Rightarrow> None
      | Some container \<Rightarrow>
          (let pe = perc (esperando s) (total s);
               pn = perc (entrevista s) (total s);
               pr = perc (rejeitado s) (total s);
               dias = diasUso Date_parse (clock_ms w) (primeira_candidatura s)
           in if total s = 0 then Some EmptyStats
              else Some (StatsCards
                \<lparr>shown_total = total s,
                 shown_esperando = esperando s, percEsperando = pe,
                 shown_entrevista = entrevista s, percEntrevista = pn,
                 shown_rejeitado = rejeitado s, percRejeitado = pr,
                 shown_taxa_conversao = taxa_conversao s,
                 taxa_class = (if taxa_conversao s \<ge> 20 then ''text-success'' else ''text-warning''),
                 shown_empresa_top =
                   map_option (\<lambda>c. (c, empresa_top_count s)) (truthy_string (empresa_top s)),
                 shown_mes_mais_ativo =
                   map_option (\<lambda>m. (m, mes_mais_ativo_count s)) (truthy_string (mes_mais_ativo s)),
                 shown_primeira_candidatura = truthy_string (primeira_candidatura s),
                 shown_ultima_entrevista = truthy_string (ultima_entrevista s),
                 shown_diasUso = dias\<rparr>)))"

section \<open>Sample inputs\<close>

text \<open>A document that has every element the notification functions look up.\<close>

definition sample_element :: element where
  "sample_element = \<lparr>display = ''block'', content = Text [], classList = []\<rparr>"

definition sample_dom :: dom where
  "sample_dom =
     [''notificationBadge'' \<mapsto> sample_element, ''notificationBell'' \<mapsto> sample_element,
      ''notificationDropdownBody'' \<mapsto> sample_element]"

text \<open>A document with the four counters of the dashboard, and the container of the profile.\<close>

definition stats_dom :: dom where
  "stats_dom =
     [''statEsperando'' \<mapsto> sample_element, ''statEntrevista'' \<mapsto> sample_element,
      ''statRejeitado'' \<mapsto> sample_element, ''statTotal'' \<mapsto> sample_element,
      ''statsContainer'' \<mapsto> sample_element]"

text \<open>The application of the README's example request.\<close>

definition sample_application :: application where
  "sample_application =
     \<lparr>app_id = 1, nome = ''Dev Python'', empresa = ''Petrobras'', role = ''Backend'',
      data = ''2024-01-29'', status = ''esperando'', chance = 80\<rparr>"

text \<open>A statistics object: the example of the spec, with its earliest date.\<close>

definition sample_stats :: stats where
  "sample_stats =
     \<lparr>total = 3, esperando = 1, entrevista = 2, rejeitado = 0, taxa_conversao = 67,
      empresa_top = Some ''Acme'', empresa_top_count = 2,
      mes_mais_ativo = Some ''2024-01'', mes_mais_ativo_count = 2,
      primeira_candidatura = Some ''2024-01-05'', ultima_entrevista = None\<rparr>"

text \<open>What \<^verbatim>\<open>new Date\<close> makes of two date strings: midnight UTC, in milliseconds.\<close>

definition sample_Date_parse :: "string \<Rightarrow> int option" where
  "sample_Date_parse s =
     (if s = ''2024-01-05'' then Some 1704412800000
      else if s = ''2024-02-01'' then Some 1706745600000
      else None)"

section \<open>What a rounded percentage is\<close>

text \<open>A number is a whole percentage when it is finite and an integer between 0 and 100.\<close>

fun whole_percentage :: "number \<Rightarrow> bool" where
  "whole_percentage (Finite x) = (x = of_int \<lfloor>x\<rfloor> \<and> 0 \<le> x \<and> x \<le> 100)"
| "whole_percentage NonFinite = False"

text \<open>
  A number is a rounded percentage of \<open>c\<close> in \<open>t\<close> when it is finite, an integer between 0 and
  100, and no integer is nearer to the exact \<open>100 c / t\<close>.
\<close>

fun rounded_percentage :: "number \<Rightarrow> nat \<Rightarrow> nat \<Rightarrow> bool" where
  "rounded_percentage (Finite x) c t =
     (x = of_int \<lfloor>x\<rfloor> \<and> 0 \<le> x \<and> x \<le> 100 \<and> \<bar>x - 100 * of_nat c / of_nat t\<bar> \<le> 1/2)"
| "rounded_percentage NonFinite c t = False"

section \<open>Decimal strings: the proofs\<close>

text \<open>\<open>string_of_nat\<close> writes decimal digits only, and they read back as the number.\<close>

lemma digit_value_digit_char: "d < 10 \<Longrightarrow> digit_value (digit_char d) = d"
proof -
  assume "d < 10"
  then have "d \<in> {0, 1, 2, 3, 4, 5, 6, 7, 8, 9}" by auto
  then show ?thesis
    by (auto simp: digit_value_def digit_char_def)
qed

lemma decimal_value_snoc: "decimal_value (s @ [c]) = 10 * decimal_value s + digit_value c"
  by (simp add: decimal_value_def)

lemma decimal_value_string_of_nat: "decimal_value (string_of_nat n) = n"
proof (induction n rule: string_of_nat.induct)
  case (1 n)
  show ?case
  proof (cases "n < 10")
    case True
    then show ?thesis
      by (simp add: string_of_nat.simps [of n] decimal_value_def digit_value_digit_char)
  next
    case False
    with 1 have "decimal_value (string_of_nat (n div 10)) = n div 10" by simp
    with False show ?thesis
      by (simp add: string_of_nat.simps [of n] decimal_value_snoc digit_value_digit_char)
  qed
qed

lemma string_of_nat_digits: "set (string_of_nat n) \<subseteq> set ''0123456789''"
proof (induction n rule: string_of_nat.induct)
  case (1 n)
  have d: "\<And>k. k < 10 \<Longrightarrow> digit_char k \<in> set ''0123456789''"
    unfolding digit_char_def by (rule nth_mem) simp
  show ?case
  proof (cases "n < 10")
    case True
    then show ?thesis using d [of n] by (simp add: string_of_nat.simps [of n])
  next
    case False
    with 1 have "set (string_of_nat (n div 10)) \<subseteq> set ''0123456789''" by simp
    with False d [of "n mod 10"] show ?thesis
      by (simp add: string_of_nat.simps [of n])
  qed
qed

section \<open>escapeHtml: the proofs\<close>







text \<open>\<open>amps_ok\<close> says what its name promises, position by position.\<close>

lemma amps_ok_iff:
  "amps_ok s \<longleftrightarrow>
     (\<forall>i < length s. s ! i = CHR ''&'' \<longrightarrow> (\<exists>e \<in> set entity_tails. prefix e (drop (Suc i) s)))"
proof (induction s)
  case Nil
  then show ?case by simp
next
  case (Cons x xs)
  have "(\<forall>i < length (x # xs). (x # xs) ! i = CHR ''&'' \<longrightarrow>
            (\<exists>e \<in> set entity_tails. prefix e (drop (Suc i) (x # xs))))
        \<longleftrightarrow> (x = CHR ''&'' \<longrightarrow> (\<exists>e \<in> set entity_tails. prefix e xs))
           \<and> (\<forall>i < length xs. xs ! i = CHR ''&'' \<longrightarrow>
                 (\<exists>e \<in> set entity_tails. prefix e (drop (Suc i) xs)))"
    by (auto simp: nth_Cons split: nat.splits)
  with Cons.IH show ?case
    by (simp add: list_ex_iff)
qed



section \<open>Notifications: the proofs\<close>

text \<open>
  Claim C10. In a document that has the badge and the bell, \<open>updateNotificationBadge\<close> hides
  the badge exactly when the count is zero or negative; for a positive count it shows the
  badge, with the text \<open>9+\<close> when the count exceeds nine and the decimal digits of the count
  otherwise.
\<close>

theorem badge_shows_count:
  assumes "d ''notificationBadge'' = Some badge" and "d ''notificationBell'' = Some bell"
  shows "\<exists>b. updateNotificationBadge n d ''notificationBadge'' = Some b \<and>
           (display b = ''none'' \<longleftrightarrow> n \<le> 0) \<and>
           (0 < n \<longrightarrow> display b = ''flex'' \<and>
              content b = Text (if 9 < n then ''9+'' else string_of_int n))"
proof -
  have "Rep_safe_int (Abs_safe_int n) = n" if "0 < n" and "\<not> 9 < n"
    using that by (intro Abs_safe_int_inverse) simp
  then show ?thesis
    using assms by (auto simp: updateNotificationBadge_def)
qed

theorem badge_shows_count_witness:
  "(\<exists>b. updateNotificationBadge 12 sample_dom ''notificationBadge'' = Some b
      \<and> display b = ''flex'' \<and> content b = Text ''9+'')
   \<and> (\<exists>b. updateNotificationBadge 7 sample_dom ''notificationBadge'' = Some b
      \<and> display b = ''flex'' \<and> content b = Text ''7'')
   \<and> (\<exists>b. updateNotificationBadge (- 3) sample_dom ''notificationBadge'' = Some b
      \<and> display b = ''none'')"
proof -
  have badge: "sample_dom ''notificationBadge'' = Some sample_element"
    and bell: "sample_dom ''notificationBell'' = Some sample_element"
    by (simp_all add: sample_dom_def)
  have seven: "string_of_int 7 = ''7''"
    by (simp add: string_of_int_def string_of_nat.simps digit_char_def)
  show ?thesis
    using badge_shows_count [OF badge bell, of 12] badge_shows_count [OF badge bell, of 7]
      badge_shows_count [OF badge bell, of "- 3"] seven
    by auto
qed

text \<open>The markup of the categories never equals the markup of the empty state.\<close>

lemma notification_html_not_empty_state: "notification_html r p \<noteq> notification_empty"
proof -
  have "notification_html r p = [] \<or> (\<exists>rest. notification_html r p = ''<d'' @ rest)"
    by (auto simp: notification_html_def notification_section_def)
  then show ?thesis by (auto simp: notification_empty_def)
qed

text \<open>
  Claim C1. In a payload built as the spec says, \<open>total_count\<close> is the sum of the lengths of
  the three lists, and it is zero exactly when the three lists are empty. In a document that
  has the elements, \<open>renderNotificationDropdown\<close> writes the empty state (\<^emph>\<open>Nenhuma entrevista
  proxima\<close>) exactly when \<open>total_count\<close> is zero, whatever the payload, and for a payload of
  the spec \<open>updateNotificationBadge\<close> hides the badge exactly then.
\<close>

theorem total_count_and_empty_state:
  assumes "d ''notificationBadge'' = Some badge" and "d ''notificationBell'' = Some bell"
    and "d ''notificationDropdownBody'' = Some body"
  shows "total_count (reminder_payload td tm wk) = int (length td) + int (length tm) + int (length wk)
    \<and> (total_count (reminder_payload td tm wk) = 0 \<longleftrightarrow> td = [] \<and> tm = [] \<and> wk = [])
    \<and> (\<forall>p. \<exists>b. renderNotificationDropdown r p d ''notificationDropdownBody'' = Some b
          \<and> (content b = Html notification_empty \<longleftrightarrow> total_count p = 0))
    \<and> (\<exists>b. updateNotificationBadge (total_count (reminder_payload td tm wk)) d ''notificationBadge'' = Some b
          \<and> (display b = ''none'' \<longleftrightarrow> total_count (reminder_payload td tm wk) = 0))"
proof -
  let ?p = "reminder_payload td tm wk"
  have 1: "total_count ?p = int (length td) + int (length tm) + int (length wk)"
    by (simp add: reminder_payload_def)
  have 2: "total_count ?p = 0 \<longleftrightarrow> td = [] \<and> tm = [] \<and> wk = []"
    by (simp add: reminder_payload_def del: of_nat_add)
  have 3: "\<exists>b. renderNotificationDropdown r p d ''notificationDropdownBody'' = Some b
          \<and> (content b = Html notification_empty \<longleftrightarrow> total_count p = 0)" for p
    using assms(3) notification_html_not_empty_state [of r p]
    by (simp add: renderNotificationDropdown_def)
  have "0 \<le> total_count ?p"
    by (simp add: reminder_payload_def del: of_nat_add)
  then have 4: "\<exists>b. updateNotificationBadge (total_count ?p) d ''notificationBadge'' = Some b
          \<and> (display b = ''none'' \<longleftrightarrow> total_count ?p = 0)"
    using assms(1,2) by (auto simp: updateNotificationBadge_def)
  from 1 2 3 4 show ?thesis by blast
qed

theorem total_count_and_empty_state_witness:
  "total_count (reminder_payload [1::nat] [] [2, 3]) = 3
   \<and> (\<exists>b. renderNotificationDropdown (\<lambda>i c. c) (reminder_payload [1::nat] [] [2, 3]) sample_dom
            ''notificationDropdownBody'' = Some b \<and> content b \<noteq> Html notification_empty)
   \<and> (\<exists>b. renderNotificationDropdown (\<lambda>i c. c) (reminder_payload ([]::nat list) [] []) sample_dom
            ''notificationDropdownBody'' = Some b \<and> content b = Html notification_empty)
   \<and> (\<exists>b. updateNotificationBadge (total_count (reminder_payload ([]::nat list) [] [])) sample_dom
            ''notificationBadge'' = Some b \<and> display b = ''none'')"
proof -
  have badge: "sample_dom ''notificationBadge'' = Some sample_element"
    and bell: "sample_dom ''notificationBell'' = Some sample_element"
    and body: "sample_dom ''notificationDropdownBody'' = Some sample_element"
    by (simp_all add: sample_dom_def)
  note full = total_count_and_empty_state [OF badge bell body, of "[1::nat]" "[]" "[2, 3]"
      "\<lambda>(i::nat) c. c"]
  note none = total_count_and_empty_state [OF badge bell body, of "[]::nat list" "[]" "[]"
      "\<lambda>(i::nat) c. c"]
  from full have dropdown:
    "\<exists>b. renderNotificationDropdown (\<lambda>(i::nat) c. c) p sample_dom ''notificationDropdownBody'' = Some b
       \<and> (content b = Html notification_empty \<longleftrightarrow> total_count p = 0)" for p
    by blast
  have "total_count (reminder_payload [1::nat] [] [2, 3]) = 3"
    using full by simp
  moreover have "total_count (reminder_payload [1::nat] [] [2, 3]) \<noteq> 0"
    and "total_count (reminder_payload ([]::nat list) [] []) = 0"
    using full none by simp_all
  ultimately show ?thesis
    using dropdown [of "reminder_payload [1::nat] [] [2, 3]"]
      dropdown [of "reminder_payload ([]::nat list) [] []"] none
    by auto
qed

text \<open>
  Claim C2. With a session token and a successful response that carries a payload, the login
  reminder schedules the \<^emph>\<open>today\<close> message when the today list is not empty (the singular text
  for exactly one interview, the plural text with the count otherwise); else the \<^emph>\<open>tomorrow\<close>
  message, in the same two forms, when the tomorrow list is not empty; else nothing.
\<close>

theorem login_reminder_message:
  assumes "token_truthy tok"
  shows "(length (today p) = 1 \<longrightarrow>
            showLoginReminders tok (Response True (Some p)) =
              Some \<lparr>delay_ms = 3500, message = ''Voce tem 1 entrevista hoje!'', toast_type = ''error''\<rparr>)
       \<and> (1 < length (today p) \<longrightarrow>
            showLoginReminders tok (Response True (Some p)) =
              Some \<lparr>delay_ms = 3500,
                    message = ''Voce tem '' @ string_of_nat (length (today p)) @ '' entrevistas hoje!'',
                    toast_type = ''error''\<rparr>)
       \<and> (today p = [] \<and> length (tomorrow p) = 1 \<longrightarrow>
            showLoginReminders tok (Response True (Some p)) =
              Some \<lparr>delay_ms = 3500, message = ''Voce tem 1 entrevista amanha'', toast_type = ''success''\<rparr>)
       \<and> (today p = [] \<and> 1 < length (tomorrow p) \<longrightarrow>
            showLoginReminders tok (Response True (Some p)) =
              Some \<lparr>delay_ms = 3500,
                    message = ''Voce tem '' @ string_of_nat (length (tomorrow p)) @ '' entrevistas amanha'',
                    toast_type = ''success''\<rparr>)
       \<and> (today p = [] \<and> tomorrow p = [] \<longrightarrow>
            showLoginReminders tok (Response True (Some p)) = None)"
  using assms
  by (auto simp: showLoginReminders_def Let_def)

theorem login_reminder_message_witness:
  "showLoginReminders (Some ''jwt'')
     (Response True (Some \<lparr>today = [1::nat], tomorrow = [2], this_week = [], total_count = 2\<rparr>))
     = Some \<lparr>delay_ms = 3500, message = ''Voce tem 1 entrevista hoje!'', toast_type = ''error''\<rparr>
   \<and> showLoginReminders (Some ''jwt'')
     (Response True (Some \<lparr>today = [], tomorrow = [1::nat, 2], this_week = [3], total_count = 3\<rparr>))
     = Some \<lparr>delay_ms = 3500, message = ''Voce tem 2 entrevistas amanha'', toast_type = ''success''\<rparr>
   \<and> showLoginReminders (Some ''jwt'')
     (Response True (Some \<lparr>today = [], tomorrow = [], this_week = [3::nat], total_count = 1\<rparr>))
     = None"
proof -
  have tok: "token_truthy (Some ''jwt'')" by (simp add: token_truthy_def)
  have two: "string_of_nat (Suc (Suc 0)) = ''2''"
    by (simp add: string_of_nat.simps digit_char_def)
  show ?thesis
    using login_reminder_message [OF tok,
        of "\<lparr>today = [1::nat], tomorrow = [2], this_week = [], total_count = 2\<rparr>"]
      login_reminder_message [OF tok,
        of "\<lparr>today = [], tomorrow = [1::nat, 2], this_week = [3], total_count = 3\<rparr>"]
      login_reminder_message [OF tok,
        of "\<lparr>today = [], tomorrow = [], this_week = [3::nat], total_count = 1\<rparr>"] two
    by simp
qed

section \<open>safeJson: the proof\<close>

text \<open>
  Claim C9. \<open>safeJson\<close> never throws: its result is always a value. It is the parsed value when
  the body text is not empty and parses; it is \<^verbatim>\<open>null\<close> when the text is empty, when the
  text does not parse, and when the body cannot be read.
\<close>

theorem safeJson_total:
  "(\<exists>v. safeJson parse r = Inr v)
   \<and> (\<forall>t v. r = Inr t \<and> t \<noteq> [] \<and> parse t = Inr v \<longrightarrow> safeJson parse r = Inr v)
   \<and> (r = Inr [] \<longrightarrow> safeJson parse r = Inr JNull)
   \<and> (\<forall>t e. r = Inr t \<and> parse t = Inl e \<longrightarrow> safeJson parse r = Inr JNull)
   \<and> (\<forall>e. r = Inl e \<longrightarrow> safeJson parse r = Inr JNull)"
  by (auto simp: safeJson_def try_catch_def split: sum.splits)

theorem safeJson_total_witness:
  "safeJson (\<lambda>t. if t = ''[]'' then Inr (JArray []) else Inl SyntaxError) (Inr ''[]'') = Inr (JArray [])
   \<and> safeJson (\<lambda>t. if t = ''[]'' then Inr (JArray []) else Inl SyntaxError) (Inr ''<html>'') = Inr JNull
   \<and> safeJson (\<lambda>t. if t = ''[]'' then Inr (JArray []) else Inl SyntaxError) (Inr []) = Inr JNull
   \<and> safeJson (\<lambda>t. if t = ''[]'' then Inr (JArray []) else Inl SyntaxError) (Inl BodyError) = Inr JNull"
  using safeJson_total [of "\<lambda>t. if t = ''[]'' then Inr (JArray []) else Inl SyntaxError" "Inr ''[]''"]
    safeJson_total [of "\<lambda>t. if t = ''[]'' then Inr (JArray []) else Inl SyntaxError" "Inr ''<html>''"]
    safeJson_total [of "\<lambda>t. if t = ''[]'' then Inr (JArray []) else Inl SyntaxError" "Inr []"]
    safeJson_total [of "\<lambda>t. if t = ''[]'' then Inr (JArray []) else Inl SyntaxError" "Inl BodyError"]
  by simp

section \<open>Status of an application: the proofs\<close>

lemma js_get_own: "s k = Some v \<Longrightarrow> js_get s k = Value v"
  by (simp add: js_get_def)

lemma count_status_same:
  assumes "s k = Some (Count a)" and "k \<noteq> ''__proto__''" and "status app = k"
  shows "count_status s app k = Some (Count (a + 1))"
  using assms by (simp add: count_status_def js_get_own js_put_def)

lemma count_status_other:
  assumes "status app \<noteq> k"
  shows "count_status s app k = s k"
  using assms by (simp add: count_status_def js_put_def)

text \<open>
  A counter the object already has goes up by one for each application whose status is the
  counter's name: the loop invariant of the \<^verbatim>\<open>forEach\<close>.
\<close>

lemma foldl_count_status:
  assumes "s k = Some (Count a)" and "k \<noteq> ''__proto__''"
  shows "foldl count_status s apps k = Some (Count (a + int (with_status k apps)))"
  using assms
proof (induction apps arbitrary: s a)
  case Nil
  then show ?case by (simp add: with_status_def)
next
  case (Cons app apps)
  show ?case
  proof (cases "status app = k")
    case True
    then have "count_status s app k = Some (Count (a + 1))"
      using Cons.prems by (simp add: count_status_same)
    with Cons.IH [of "count_status s app" "a + 1"] Cons.prems(2) True show ?thesis
      by (simp add: with_status_def)
  next
    case False
    then have "count_status s app k = Some (Count a)"
      using Cons.prems by (simp add: count_status_other)
    with Cons.IH [of "count_status s app" a] Cons.prems(2) False show ?thesis
      by (simp add: with_status_def)
  qed
qed

text \<open>Each of the three known counters ends as the number of applications with that status.\<close>

lemma status_counts_known:
  assumes "st \<in> known_statuses"
  shows "status_counts apps st = Some (Count (int (with_status st apps)))"
proof -
  have "initial_stats apps st = Some (Count 0)" and "st \<noteq> ''__proto__''"
    using assms by (auto simp: initial_stats_def known_statuses_def)
  with foldl_count_status [of "initial_stats apps" st 0 apps] show ?thesis
    by (simp add: status_counts_def)
qed

text \<open>
  \<^verbatim>\<open>total\<close> is a property of the same object, so the guard of the loop lets the status
  \<^verbatim>\<open>"total"\<close> through: the total ends as the length of the list plus the number of
  applications whose status is that string.
\<close>

lemma status_counts_total:
  "status_counts apps ''total'' =
     Some (Count (int (length apps) + int (with_status ''total'' apps)))"
proof -
  have "initial_stats apps ''total'' = Some (Count (int (length apps)))"
    and "''total'' \<noteq> ''__proto__''"
    by (auto simp: initial_stats_def)
  with foldl_count_status [of "initial_stats apps" "''total''" "int (length apps)" apps]
  show ?thesis
    by (simp add: status_counts_def)
qed

text \<open>
  A status that is neither one of the three known ones nor the name of a member of
  \<^verbatim>\<open>Object.prototype\<close> passes through: the text is the status itself, the icon the default.
\<close>

lemma unknown_status_graceful:
  assumes "st \<notin> known_statuses" and "st \<notin> set object_prototype_names"
  shows "getStatusText st = Value st" and "getStatusIcon st = Value icon_default"
  using assms
  by (auto simp: known_statuses_def getStatusText_def getStatusIcon_def js_get_def js_or_def
      texts_def icons_def)

lemma known_status_text:
  "getStatusText ''esperando'' = Value ''Esperando''"
  "getStatusText ''entrevista'' = Value ''Entrevista''"
  "getStatusText ''rejeitado'' = Value ''Rejeitado''"
  by (simp_all add: getStatusText_def js_get_def js_or_def texts_def)

text \<open>
  Claim C6 asks that every status outside the three known ones passes through: the text is
  the status unchanged, the icon the default, and \<open>updateStats\<close> counts the record in the
  total only. The code does not do so for every string. For the status \<^verbatim>\<open>"constructor"\<close>
  the lookups \<^verbatim>\<open>texts[status]\<close> and \<^verbatim>\<open>icons[status]\<close> find the member inherited from
  \<^verbatim>\<open>Object.prototype\<close>, which is truthy, and return it instead of the fallback. For the
  status \<^verbatim>\<open>"total"\<close> the guard of \<open>updateStats\<close> finds the property \<^verbatim>\<open>total\<close> and increments
  it, so that one record yields the total two.
\<close>

theorem unknown_status_not_passed_through:
  "''constructor'' \<notin> known_statuses \<and> ''total'' \<notin> known_statuses
   \<and> getStatusText ''constructor'' = ProtoMember ''constructor''
   \<and> getStatusText ''constructor'' \<noteq> Value ''constructor''
   \<and> getStatusIcon ''constructor'' = ProtoMember ''constructor''
   \<and> getStatusIcon ''constructor'' \<noteq> Value icon_default
   \<and> status_counts [sample_application\<lparr>status := ''total''\<rparr>] ''total'' = Some (Count 2)"
  by (simp add: known_statuses_def getStatusText_def getStatusIcon_def js_get_def js_or_def
      texts_def icons_def object_prototype_names_def status_counts_total with_status_def)

text \<open>
  Claim C7 asks for a total equal to the length of the list. The three counters are right for
  every list (\<open>status_counts_known\<close>), but the total is not: for the one-element list whose
  application has the status \<^verbatim>\<open>"total"\<close>, \<open>updateStats\<close> writes 2 into \<^verbatim>\<open>statTotal\<close>.
\<close>

theorem updateStats_total_miscounts:
  "length [sample_application\<lparr>status := ''total''\<rparr>] = 1
   \<and> map_option content
        (updateStats [sample_application\<lparr>status := ''total''\<rparr>] stats_dom ''statTotal'')
      = Some (Text ''2'')"
  by (simp add: updateStats_def Let_def status_counts_total setText_def stats_dom_def
      with_status_def string_of_int_def string_of_nat.simps digit_char_def)

section \<open>Numbers: the proofs\<close>

text \<open>Rounding to an integer moves a value by at most one half and fixes the integers.\<close>

lemma round_half_even_error: "\<bar>of_int (round_half_even y) - y\<bar> \<le> 1/2"
proof -
  have "of_int \<lfloor>y\<rfloor> \<le> y" "y < of_int \<lfloor>y\<rfloor> + 1" by linarith+
  then show ?thesis
    by (auto simp: round_half_even_def Let_def abs_le_iff)
qed

lemma round_half_even_of_int: "round_half_even (of_int k) = k"
  by (simp add: round_half_even_def)

text \<open>\<open>binary_exponent\<close> is the exponent of the binade: \<open>2\<^sup>e \<le> x < 2\<^sup>e\<^sup>+\<^sup>1\<close>.\<close>

lemma binary_exponent_bounds:
  assumes "0 < x"
  shows "2 powi binary_exponent x \<le> x" and "x < 2 powi (binary_exponent x + 1)"
proof -
  obtain p q where pq: "quotient_of x = (p, q)" by (cases "quotient_of x")
  then have q: "0 < q" and x: "x = of_int p / of_int q"
    using quotient_of_denom_pos quotient_of_div by auto
  with assms have p: "0 < p"
    by (simp add: zero_less_divide_iff)
  define bp bq where "bp = bitlen p" and "bq = bitlen q"
  have bp1: "1 \<le> bp" and bq1: "1 \<le> bq"
    using p q bitlen_eq_zero_iff [of p] bitlen_eq_zero_iff [of q] bitlen_nonneg [of p] bitlen_nonneg [of q]
    unfolding bp_def bq_def by linarith+
  have plow: "(2::rat) powi (bp - 1) \<le> of_int p"
  proof -
    have "2 ^ nat (bp - 1) \<le> p" using bitlen_bounds [OF p] by (simp add: bp_def)
    then have "(of_int (2 ^ nat (bp - 1)) :: rat) \<le> of_int p" by (simp only: of_int_le_iff)
    moreover have "(2::rat) powi (bp - 1) = 2 ^ nat (bp - 1)"
      using bp1 by (simp add: power_int_def)
    ultimately show ?thesis by simp
  qed
  have pup: "of_int p < (2::rat) powi bp"
  proof -
    have "p < 2 ^ nat bp" using bitlen_bounds [OF p] by (simp add: bp_def)
    then have "(of_int p :: rat) < of_int (2 ^ nat bp)" by (simp only: of_int_less_iff)
    moreover have "(2::rat) powi bp = 2 ^ nat bp"
      using bp1 by (simp add: power_int_def)
    ultimately show ?thesis by simp
  qed
  have qlow: "(2::rat) powi (bq - 1) \<le> of_int q"
  proof -
    have "2 ^ nat (bq - 1) \<le> q" using bitlen_bounds [OF q] by (simp add: bq_def)
    then have "(of_int (2 ^ nat (bq - 1)) :: rat) \<le> of_int q" by (simp only: of_int_le_iff)
    moreover have "(2::rat) powi (bq - 1) = 2 ^ nat (bq - 1)"
      using bq1 by (simp add: power_int_def)
    ultimately show ?thesis by simp
  qed
  have qup: "of_int q < (2::rat) powi bq"
  proof -
    have "q < 2 ^ nat bq" using bitlen_bounds [OF q] by (simp add: bq_def)
    then have "(of_int q :: rat) < of_int (2 ^ nat bq)" by (simp only: of_int_less_iff)
    moreover have "(2::rat) powi bq = 2 ^ nat bq"
      using bq1 by (simp add: power_int_def)
    ultimately show ?thesis by simp
  qed
  have qpos: "(0::rat) < of_int q" using q by simp
  have low: "(2::rat) powi (bp - bq - 1) \<le> x"
  proof -
    have eq: "bp - bq - 1 = (bp - 1) - bq" by simp
    have "(2::rat) powi (bp - bq - 1) = 2 powi (bp - 1) / 2 powi bq"
      unfolding eq by (rule power_int_diff) simp
    also have "\<dots> \<le> of_int p / of_int q"
      using plow qup qpos p by (intro frac_le) auto
    finally show ?thesis by (simp add: x)
  qed
  have up: "x < (2::rat) powi (bp - bq + 1)"
  proof -
    have "x = of_int p / of_int q" by (rule x)
    also have "\<dots> < 2 powi bp / 2 powi (bq - 1)"
      using pup qlow qpos p by (intro frac_less) auto
    also have "\<dots> = 2 powi (bp - (bq - 1))"
      by (rule power_int_diff [symmetric]) simp
    also have "\<dots> = 2 powi (bp - bq + 1)"
      by (simp add: algebra_simps)
    finally show ?thesis .
  qed
  have be: "binary_exponent x = (if 2 powi (bp - bq) \<le> x then bp - bq else bp - bq - 1)"
    by (simp add: binary_exponent_def pq bp_def bq_def)
  show "2 powi binary_exponent x \<le> x"
    using low by (simp add: be)
  show "x < 2 powi (binary_exponent x + 1)"
    using up by (auto simp: be not_le)
qed

text \<open>The relative error of one rounding is at most \<open>2\<^sup>-\<^sup>5\<^sup>3\<close>.\<close>

lemma fl_error: "\<bar>fl x - x\<bar> \<le> \<bar>x\<bar> / 2 ^ 53"
proof (cases "x = 0")
  case True
  then show ?thesis by (simp add: fl_def)
next
  case False
  define a where "a = \<bar>x\<bar>"
  define e where "e = binary_exponent a"
  define u :: rat where "u = 2 powi (e - 52)"
  define r where "r = round_half_even (a / u)"
  have a: "0 < a" using False by (simp add: a_def)
  have u: "0 < u" by (simp add: u_def)
  have flx: "fl x = sgn x * of_int r * u"
    using False by (simp add: fl_def Let_def a_def e_def u_def r_def)
  have "x = sgn x * a" by (simp add: a_def sgn_mult_abs)
  then have "fl x - x = sgn x * (of_int r * u - a)"
    by (simp add: flx algebra_simps)
  then have "\<bar>fl x - x\<bar> = \<bar>sgn x * (of_int r * u - a)\<bar>"
    by simp
  also have "\<dots> = \<bar>of_int r * u - a\<bar>"
    using False by (simp add: abs_mult abs_sgn_eq)
  also have "\<dots> = \<bar>of_int r - a / u\<bar> * u"
  proof -
    have "of_int r * u - a = (of_int r - a / u) * u"
      using u by (simp add: field_simps)
    then show ?thesis using u by (simp add: abs_mult)
  qed
  also have "\<dots> \<le> 1/2 * u"
    using round_half_even_error [of "a / u"] u
    by (intro mult_right_mono) (simp_all add: r_def)
  also have "\<dots> = 2 powi e / 2 ^ 53"
  proof -
    have "(2::rat) powi (e - 52) = 2 powi e / 2 powi 52"
      by (rule power_int_diff) simp
    then show ?thesis by (simp add: u_def)
  qed
  also have "\<dots> \<le> a / 2 ^ 53"
    using binary_exponent_bounds(1) [OF a] by (simp add: e_def divide_right_mono)
  finally show ?thesis by (simp add: a_def)
qed

text \<open>An integer below \<open>2\<^sup>5\<^sup>3\<close> in magnitude is a double: rounding leaves it as it is.\<close>

lemma fl_of_int:
  assumes "\<bar>n\<bar> < 2 ^ 53"
  shows "fl (of_int n) = of_int n"
proof (cases "n = 0")
  case True
  then show ?thesis by (simp add: fl_def)
next
  case False
  define a :: rat where "a = \<bar>of_int n\<bar>"
  define e where "e = binary_exponent a"
  define u :: rat where "u = 2 powi (e - 52)"
  have a: "0 < a" using False by (simp add: a_def)
  have a_int: "a = of_int \<bar>n\<bar>" by (simp add: a_def)
  have "2 powi e \<le> a" using binary_exponent_bounds(1) [OF a] by (simp add: e_def)
  also have "a < 2 ^ 53"
  proof -
    have "(of_int \<bar>n\<bar> :: rat) < of_int (2 ^ 53)"
      using assms by (simp only: of_int_less_iff)
    then show ?thesis by (simp add: a_int)
  qed
  finally have lt: "(2::rat) powi e < 2 ^ 53" .
  have e: "e \<le> 52"
  proof (rule ccontr)
    assume "\<not> e \<le> 52"
    then have "53 \<le> e" by simp
    then have "(2::rat) powi 53 \<le> 2 powi e"
      by (intro power_int_increasing) simp_all
    with lt show False by simp
  qed
  define k where "k = nat (52 - e)"
  have u_eq: "u = 1 / 2 ^ k"
  proof -
    have "e - 52 = - int k" using e by (simp add: k_def)
    then have "u = 2 powi (- int k)" by (simp add: u_def)
    then show ?thesis by (simp add: power_int_minus field_simps)
  qed
  have "a / u = of_int (\<bar>n\<bar> * 2 ^ k)"
    by (simp add: u_eq a_int)
  then have "round_half_even (a / u) = \<bar>n\<bar> * 2 ^ k"
    by (simp only: round_half_even_of_int)
  then have "of_int (round_half_even (a / u)) * u = a"
    by (simp add: u_eq a_int)
  then have "fl (of_int n) = sgn (of_int n) * a"
    using False by (simp add: fl_def Let_def a_def e_def u_def mult.assoc)
  then show ?thesis by (simp add: a_def sgn_mult_abs)
qed

lemma number_of_nat_exact:
  assumes "n < 2 ^ 53"
  shows "number_of_nat n = Finite (of_nat n)"
proof -
  have "\<bar>int n\<bar> < 2 ^ 53" using assms by (simp add: of_nat_less_numeral_power_cancel_iff)
  from fl_of_int [OF this] show ?thesis by (simp add: number_of_nat_def)
qed

lemma fl_bounds:
  assumes "0 \<le> x"
  shows "x * (1 - 1 / 2 ^ 53) \<le> fl x" and "fl x \<le> x * (1 + 1 / 2 ^ 53)"
proof -
  define u :: rat where "u = 1 / 2 ^ 53"
  have "\<bar>fl x - x\<bar> \<le> x * u"
    using fl_error [of x] assms by (simp add: u_def)
  then have "fl x - x \<le> x * u" and "- (x * u) \<le> fl x - x"
    by (simp_all add: abs_le_iff)
  then have "x * (1 - u) \<le> fl x" and "fl x \<le> x * (1 + u)"
    by (simp_all add: algebra_simps)
  then show "x * (1 - 1 / 2 ^ 53) \<le> fl x" and "fl x \<le> x * (1 + 1 / 2 ^ 53)"
    by (simp_all only: u_def)
qed

text \<open>
  The quotient and the product of \<^verbatim>\<open>(count / total) * 100\<close> round twice; together they move
  the exact value by less than \<open>2\<^sup>-\<^sup>4\<^sup>4\<close>.
\<close>

lemma double_rounding_close:
  assumes "0 \<le> y" and "y \<le> 1"
  shows "\<bar>fl (fl y * 100) - 100 * y\<bar> \<le> 100 * (2 / 2 ^ 53 + 1 / 2 ^ 106)"
proof -
  define u :: rat where "u = 1 / 2 ^ 53"
  have u: "0 < u" "u < 1" by (simp_all add: u_def)
  have q: "y * (1 - u) \<le> fl y" "fl y \<le> y * (1 + u)"
    using fl_bounds [OF assms(1)] by (simp_all add: u_def)
  have q0: "0 \<le> fl y"
  proof -
    have "0 \<le> y * (1 - u)" using assms(1) u by simp
    with q(1) show ?thesis by linarith
  qed
  then have p0: "0 \<le> fl y * 100" by simp
  have x: "fl y * 100 * (1 - u) \<le> fl (fl y * 100)" "fl (fl y * 100) \<le> fl y * 100 * (1 + u)"
    using fl_bounds [OF p0] by (simp_all add: u_def)
  have up: "fl (fl y * 100) \<le> 100 * y * (1 + u) * (1 + u)"
  proof -
    have "fl y * 100 * (1 + u) \<le> (y * (1 + u)) * 100 * (1 + u)"
      using q(2) u by (intro mult_right_mono) simp_all
    with x(2) show ?thesis by (simp add: algebra_simps)
  qed
  have low: "100 * y * (1 - u) * (1 - u) \<le> fl (fl y * 100)"
  proof -
    have "(y * (1 - u)) * 100 * (1 - u) \<le> fl y * 100 * (1 - u)"
      using q(1) u by (intro mult_right_mono) simp_all
    with x(1) show ?thesis by (simp add: algebra_simps)
  qed
  have e1: "100 * y * (1 + u) * (1 + u) - 100 * y = 100 * y * (2 * u + u * u)"
    by (simp add: algebra_simps)
  have e2: "100 * y - 100 * y * (1 - u) * (1 - u) = 100 * y * (2 * u - u * u)"
    by (simp add: algebra_simps)
  have yb: "100 * y * (2 * u + u * u) \<le> 100 * (2 * u + u * u)"
  proof -
    have "0 \<le> 2 * u + u * u" using u by simp
    then have "y * (2 * u + u * u) \<le> 1 * (2 * u + u * u)"
      using assms(2) by (intro mult_right_mono) simp_all
    then show ?thesis by simp
  qed
  have yb2: "100 * y * (2 * u - u * u) \<le> 100 * y * (2 * u + u * u)"
  proof -
    have "2 * u - u * u \<le> 2 * u + u * u" using u by simp
    moreover have "0 \<le> 100 * y" using assms(1) by simp
    ultimately show ?thesis by (rule mult_left_mono)
  qed
  have "\<bar>fl (fl y * 100) - 100 * y\<bar> \<le> 100 * (2 * u + u * u)"
    using up low e1 e2 yb yb2 by (simp add: abs_le_iff)
  moreover have "u * u = 1 / 2 ^ 106" by (simp add: u_def)
  ultimately show ?thesis by (simp add: u_def)
qed

text \<open>
  An integer that is within one half and less than \<open>1 / 2b\<close> of the fraction \<open>a / b\<close> is
  within one half of it: distances to a fraction of denominator \<open>b\<close> come in steps of
  \<open>1 / 2b\<close> here.
\<close>

lemma half_integer_tight:
  fixes k a b :: int
  assumes "0 < b" and "\<bar>of_int k - (of_int a / of_int b :: rat)\<bar> < 1/2 + 1 / (2 * of_int b)"
  shows "\<bar>of_int k - (of_int a / of_int b :: rat)\<bar> \<le> 1/2"
proof -
  have b: "(0::rat) < of_int b" using assms(1) by simp
  have "\<bar>of_int k - (of_int a / of_int b :: rat)\<bar> * (2 * of_int b) < (1/2 + 1 / (2 * of_int b)) * (2 * of_int b)"
    using assms(2) b by (intro mult_strict_right_mono) simp_all
  moreover have "\<bar>of_int k - (of_int a / of_int b :: rat)\<bar> * (2 * of_int b) = of_int \<bar>2 * b * k - 2 * a\<bar>"
  proof -
    have "(of_int k - (of_int a / of_int b :: rat)) * (2 * of_int b) = of_int (2 * b * k - 2 * a)"
      using b by (simp add: field_simps)
    then have "\<bar>(of_int k - (of_int a / of_int b :: rat)) * (2 * of_int b)\<bar> = \<bar>of_int (2 * b * k - 2 * a)\<bar>"
      by simp
    then show ?thesis using b by (simp add: abs_mult)
  qed
  moreover have "(1/2 + 1 / (2 * of_int b)) * (2 * of_int b) = (of_int (b + 1) :: rat)"
    using b by (simp add: field_simps)
  ultimately have "(of_int \<bar>2 * b * k - 2 * a\<bar> :: rat) < of_int (b + 1)" by simp
  then have "\<bar>2 * b * k - 2 * a\<bar> < b + 1" by (simp only: of_int_less_iff)
  then have "\<bar>2 * b * k - 2 * a\<bar> \<le> b" by simp
  then have "(of_int \<bar>2 * b * k - 2 * a\<bar> :: rat) \<le> of_int b" by (simp only: of_int_le_iff)
  moreover have "(of_int \<bar>2 * b * k - 2 * a\<bar> :: rat) = \<bar>of_int k - of_int a / of_int b\<bar> * (2 * of_int b)"
  proof -
    have "(of_int k - (of_int a / of_int b :: rat)) * (2 * of_int b) = of_int (2 * b * k - 2 * a)"
      using b by (simp add: field_simps)
    then have "\<bar>(of_int k - (of_int a / of_int b :: rat)) * (2 * of_int b)\<bar> = \<bar>of_int (2 * b * k - 2 * a)\<bar>"
      by simp
    then show ?thesis using b by (simp add: abs_mult)
  qed
  ultimately have "\<bar>of_int k - (of_int a / of_int b :: rat)\<bar> * (2 * of_int b) \<le> of_int b" by simp
  then show ?thesis using b by (simp add: field_simps)
qed

section \<open>renderStats: the proofs\<close>

lemma perc_value:
  assumes "0 < t" and "t < 2 ^ 53" and "c < 2 ^ 53"
  shows "perc c t = Finite (of_int \<lfloor>fl (fl (of_nat c / of_nat t) * 100) + 1/2\<rfloor>)"
  using assms by (simp add: perc_def number_of_nat_exact)

lemma perc_zero: "perc c 0 = Finite 0"
  by (simp add: perc_def number_of_nat_def fl_def)

lemma perc_rounded:
  assumes "c \<le> t" and "0 < t" and "t < 2 ^ 44"
  shows "rounded_percentage (perc c t) c t"
proof -
  define y :: rat where "y = of_nat c / of_nat t"
  define x where "x = fl (fl y * 100)"
  define k where "k = \<lfloor>x + 1/2\<rfloor>"
  have t53: "t < 2 ^ 53"
  proof -
    have "(2::nat) ^ 44 \<le> 2 ^ 53" by simp
    with assms(3) show ?thesis by linarith
  qed
  then have c53: "c < 2 ^ 53" using assms(1) by linarith
  have tpos: "(0::rat) < of_nat t" using assms(2) by simp
  have y: "0 \<le> y" "y \<le> 1"
    using assms(1) tpos by (simp_all add: y_def)
  have pv: "perc c t = Finite (of_int k)"
    using perc_value [OF assms(2) t53 c53] by (simp add: k_def x_def y_def)
  have close: "\<bar>x - 100 * y\<bar> \<le> 100 * (2 / 2 ^ 53 + 1 / 2 ^ 106)"
    unfolding x_def by (rule double_rounding_close [OF y])
  have kx: "\<bar>of_int k - x\<bar> \<le> 1/2"
  proof -
    have "of_int k \<le> x + 1/2" "x + 1/2 < of_int k + 1"
      unfolding k_def by linarith+
    then show ?thesis by linarith
  qed
  have tb: "(100 * (2 / 2 ^ 53 + 1 / 2 ^ 106) :: rat) < 1 / (2 * of_nat t)"
  proof -
    have "(of_nat t :: rat) < of_nat (2 ^ 44)" using assms(3) by (simp only: of_nat_less_iff)
    then have "(2 * of_nat t :: rat) < 2 ^ 45" by simp
    then have "1 / (2 ^ 45 :: rat) < 1 / (2 * of_nat t)"
      using tpos by (intro divide_strict_left_mono) simp_all
    moreover have "(100 * (2 / 2 ^ 53 + 1 / 2 ^ 106) :: rat) < 1 / 2 ^ 45" by simp
    ultimately show ?thesis by linarith
  qed
  have "\<bar>of_int k - 100 * y\<bar> \<le> \<bar>of_int k - x\<bar> + \<bar>x - 100 * y\<bar>" by simp
  with kx close tb have "\<bar>of_int k - 100 * y\<bar> < 1/2 + 1 / (2 * of_nat t)" by linarith
  moreover have y100: "100 * y = of_int (100 * int c) / of_int (int t)"
    by (simp add: y_def)
  ultimately have "\<bar>of_int k - (of_int (100 * int c) / of_int (int t) :: rat)\<bar> < 1/2 + 1 / (2 * of_int (int t))"
    by simp
  then have "\<bar>of_int k - (of_int (100 * int c) / of_int (int t) :: rat)\<bar> \<le> 1/2"
    using assms(2) by (intro half_integer_tight) simp_all
  then have near: "\<bar>of_int k - 100 * y\<bar> \<le> 1/2" by (simp only: y100)
  have "0 \<le> 100 * y" "100 * y \<le> 100" using y by simp_all
  with near have "(of_int (- 1) :: rat) < of_int k" "(of_int k :: rat) < of_int 101"
    by linarith+
  then have "- 1 < k" "k < 101"
    by (simp_all only: of_int_less_iff)
  then have "0 \<le> k" "k \<le> 100" by simp_all
  then have "(of_int 0 :: rat) \<le> of_int k" "(of_int k :: rat) \<le> of_int 100"
    by (simp_all only: of_int_le_iff)
  then have "(0::rat) \<le> of_int k" "(of_int k :: rat) \<le> 100" by simp_all
  with near show ?thesis
    by (simp add: pv y_def)
qed

text \<open>For every exact total the share is an integer between 0 and 100.\<close>

lemma perc_whole:
  assumes "c \<le> t" and "0 < t" and "t < 2 ^ 53"
  shows "whole_percentage (perc c t)"
proof -
  define y :: rat where "y = of_nat c / of_nat t"
  define x where "x = fl (fl y * 100)"
  define k where "k = \<lfloor>x + 1/2\<rfloor>"
  have c53: "c < 2 ^ 53" using assms(1,3) by linarith
  have tpos: "(0::rat) < of_nat t" using assms(2) by simp
  have y: "0 \<le> y" "y \<le> 1"
    using assms(1) tpos by (simp_all add: y_def)
  have pv: "perc c t = Finite (of_int k)"
    using perc_value [OF assms(2,3) c53] by (simp add: k_def x_def y_def)
  have close: "\<bar>x - 100 * y\<bar> \<le> 100 * (2 / 2 ^ 53 + 1 / 2 ^ 106)"
    unfolding x_def by (rule double_rounding_close [OF y])
  have small: "(100 * (2 / 2 ^ 53 + 1 / 2 ^ 106) :: rat) < 1/2" by simp
  have "0 \<le> 100 * y" "100 * y \<le> 100" using y by simp_all
  with close small have "- (1/2) < x" "x < 100 + 1/2" by linarith+
  then have "(of_int 0 :: rat) \<le> x + 1/2" "x + 1/2 < of_int 101" by simp_all
  then have "0 \<le> k" "k < 101"
    unfolding k_def by (simp_all only: le_floor_iff floor_less_iff)
  then have "0 \<le> k" "k \<le> 100" by simp_all
  then have "(of_int 0 :: rat) \<le> of_int k" "(of_int k :: rat) \<le> of_int 100"
    by (simp_all only: of_int_le_iff)
  then show ?thesis by (simp add: pv)
qed

lemma renderStats_cards:
  assumes "document w ''statsContainer'' = Some el" and "0 < total s"
  shows "\<exists>cards. renderStats P s w = Some (StatsCards cards)
     \<and> percEsperando cards = perc (esperando s) (total s)
     \<and> percEntrevista cards = perc (entrevista s) (total s)
     \<and> percRejeitado cards = perc (rejeitado s) (total s)
     \<and> shown_taxa_conversao cards = taxa_conversao s
     \<and> shown_diasUso cards = diasUso P (clock_ms w) (primeira_candidatura s)"
  using assms by (simp add: renderStats_def Let_def)

lemma perc_is_expression:
  assumes "0 < t" and "t < 2 ^ 53"
  shows "perc c t = Math_round (js_mul (js_div (number_of_nat c) (number_of_nat t)) (Finite 100))"
  using assms by (simp add: perc_def number_of_nat_exact)

text \<open>The percentages of the spec's example; two ties: 23 of 40 is 57.5 and is shown as
  57, because the product \<^verbatim>\<open>0.575 * 100\<close> is the double just below 57.5, and 1 of 200 is
  0.5 and is shown as 1; and a count above its total.\<close>

lemma perc_samples:
  "perc 1 3 = Finite 33" "perc 2 3 = Finite 67" "perc 0 3 = Finite 0"
  "perc 23 40 = Finite 57" "perc 1 200 = Finite 1" "perc 5 3 = Finite 167"
  by code_simp+

text \<open>Rounding the quotient of a time difference by the milliseconds of a day does not move
  its floor.\<close>

lemma floor_fl_div_day:
  assumes "\<bar>d\<bar> < 2 ^ 53"
  shows "\<lfloor>fl (of_int d / ms_per_day)\<rfloor> = d div 86400000"
proof -
  define k where "k = d div 86400000"
  define r where "r = d mod 86400000"
  define y :: rat where "y = of_int d / 86400000"
  have d: "d = k * 86400000 + r" and r: "0 \<le> r" "r < 86400000"
    by (simp_all add: k_def r_def)
  have y: "y = of_int k + of_int r / 86400000"
    by (simp add: y_def d)
  have "of_int k \<le> fl y \<and> fl y < of_int k + 1"
  proof (cases "r = 0")
    case True
    then have yk: "y = of_int k" by (simp add: y)
    have "\<bar>k\<bar> \<le> \<bar>d\<bar>"
      using d r by linarith
    with assms have "\<bar>k\<bar> < 2 ^ 53" by linarith
    from fl_of_int [OF this] show ?thesis by (simp add: yk)
  next
    case False
    with r have r1: "1 \<le> r" "r \<le> 86399999" by simp_all
    then have "(of_int 1 :: rat) \<le> of_int r" "(of_int r :: rat) \<le> of_int 86399999"
      by (simp_all only: of_int_le_iff)
    then have rr: "(1::rat) / 86400000 \<le> of_int r / 86400000"
      "(of_int r :: rat) / 86400000 \<le> 1 - 1 / 86400000"
      by simp_all
    have "(of_int \<bar>d\<bar> :: rat) < of_int (2 ^ 53)"
      using assms by (simp only: of_int_less_iff)
    then have "\<bar>y\<bar> < 2 ^ 53 / 86400000"
      by (simp add: y_def)
    then have "\<bar>y\<bar> / 2 ^ 53 < 1 / 86400000"
      by (simp add: field_simps)
    with fl_error [of y] have e: "\<bar>fl y - y\<bar> < 1 / 86400000" by linarith
    have "of_int k + 1 / 86400000 \<le> y" "y \<le> of_int k + 1 - 1 / 86400000"
      using rr unfolding y by linarith+
    with e show ?thesis by linarith
  qed
  then have "\<lfloor>fl y\<rfloor> = k" by (simp add: floor_unique)
  then show ?thesis by (simp add: y_def k_def ms_per_day_def)
qed

lemma diasUso_value:
  assumes "Date_parse s = Some p" and "s \<noteq> []" and "\<bar>clock - p\<bar> < 2 ^ 53"
  shows "diasUso Date_parse clock (Some s) = Finite (of_int ((clock - p) div 86400000))"
proof -
  have "fl (of_int clock - of_int p) = of_int (clock - p)"
    using fl_of_int [OF assms(3)] by simp
  moreover have "ms_per_day \<noteq> 0" by (simp add: ms_per_day_def)
  ultimately show ?thesis
    using assms(1,2) floor_fl_div_day [OF assms(3)]
    by (simp add: diasUso_def time_value_def Let_def)
qed

lemma floor_days: "\<lfloor>(of_int d :: rat) / 86400000\<rfloor> = d div 86400000"
  using floor_divide_of_int_eq [of d 86400000, where ?'a = rat] by simp

text \<open>
  Claim C3, as the code has it. In a document that has the container, for counts that do
  not exceed the total and a total below \<open>2\<^sup>5\<^sup>3\<close> (an exact number): when the total is
  positive, each of the three shares that \<open>renderStats\<close> shows is the value of
  \<^verbatim>\<open>Math.round((count / total) * 100)\<close>, and that value is finite (no division by zero
  happened) and an integer between 0 and 100; for a total below \<open>2\<^sup>4\<^sup>4\<close> it is moreover a
  nearest integer to the exact \<open>100 count / total\<close>. The conversion rate that is shown is the
  field \<^verbatim>\<open>taxa_conversao\<close> as it was received: \<open>renderStats\<close> neither computes nor bounds
  it. When the total is zero the expression is 0 without dividing, and the empty state is
  shown.
\<close>

theorem displayed_percentages:
  assumes "document w ''statsContainer'' = Some el"
    and "esperando s \<le> total s" and "entrevista s \<le> total s" and "rejeitado s \<le> total s"
    and "total s < 2 ^ 53"
  shows "(0 < total s \<longrightarrow>
           (\<exists>cards. renderStats P s w = Some (StatsCards cards)
              \<and> percEsperando cards =
                  Math_round (js_mul (js_div (number_of_nat (esperando s)) (number_of_nat (total s))) (Finite 100))
              \<and> percEntrevista cards =
                  Math_round (js_mul (js_div (number_of_nat (entrevista s)) (number_of_nat (total s))) (Finite 100))
              \<and> percRejeitado cards =
                  Math_round (js_mul (js_div (number_of_nat (rejeitado s)) (number_of_nat (total s))) (Finite 100))
              \<and> whole_percentage (percEsperando cards)
              \<and> whole_percentage (percEntrevista cards)
              \<and> whole_percentage (percRejeitado cards)
              \<and> (total s < 2 ^ 44 \<longrightarrow>
                    rounded_percentage (percEsperando cards) (esperando s) (total s)
                    \<and> rounded_percentage (percEntrevista cards) (entrevista s) (total s)
                    \<and> rounded_percentage (percRejeitado cards) (rejeitado s) (total s))
              \<and> shown_taxa_conversao cards = taxa_conversao s))
       \<and> (total s = 0 \<longrightarrow>
             renderStats P s w = Some EmptyStats
             \<and> perc (esperando s) (total s) = Finite 0
             \<and> perc (entrevista s) (total s) = Finite 0
             \<and> perc (rejeitado s) (total s) = Finite 0)"
proof (intro conjI impI)
  assume pos: "0 < total s"
  from renderStats_cards [OF assms(1) pos, of P] obtain cards where
    c: "renderStats P s w = Some (StatsCards cards)"
      "percEsperando cards = perc (esperando s) (total s)"
      "percEntrevista cards = perc (entrevista s) (total s)"
      "percRejeitado cards = perc (rejeitado s) (total s)"
      "shown_taxa_conversao cards = taxa_conversao s"
    by blast
  have near: "rounded_percentage (percEsperando cards) (esperando s) (total s)
      \<and> rounded_percentage (percEntrevista cards) (entrevista s) (total s)
      \<and> rounded_percentage (percRejeitado cards) (rejeitado s) (total s)"
    if small: "total s < 2 ^ 44"
    using c perc_rounded [OF assms(2) pos small] perc_rounded [OF assms(3) pos small]
      perc_rounded [OF assms(4) pos small]
    by simp
  show "\<exists>cards. renderStats P s w = Some (StatsCards cards)
              \<and> percEsperando cards =
                  Math_round (js_mul (js_div (number_of_nat (esperando s)) (number_of_nat (total s))) (Finite 100))
              \<and> percEntrevista cards =
                  Math_round (js_mul (js_div (number_of_nat (entrevista s)) (number_of_nat (total s))) (Finite 100))
              \<and> percRejeitado cards =
                  Math_round (js_mul (js_div (number_of_nat (rejeitado s)) (number_of_nat (total s))) (Finite 100))
              \<and> whole_percentage (percEsperando cards)
              \<and> whole_percentage (percEntrevista cards)
              \<and> whole_percentage (percRejeitado cards)
              \<and> (total s < 2 ^ 44 \<longrightarrow>
                    rounded_percentage (percEsperando cards) (esperando s) (total s)
                    \<and> rounded_percentage (percEntrevista cards) (entrevista s) (total s)
                    \<and> rounded_percentage (percRejeitado cards) (rejeitado s) (total s))
              \<and> shown_taxa_conversao cards = taxa_conversao s"
    using c near perc_is_expression [OF pos assms(5)]
      perc_whole [OF assms(2) pos assms(5)] perc_whole [OF assms(3) pos assms(5)]
      perc_whole [OF assms(4) pos assms(5)]
    by (intro exI [of _ cards]) simp
next
  assume "total s = 0"
  then show "renderStats P s w = Some EmptyStats" using assms(1)
    by (simp add: renderStats_def Let_def)
next
  assume "total s = 0"
  then show "perc (esperando s) (total s) = Finite 0" by (simp add: perc_zero)
next
  assume "total s = 0"
  then show "perc (entrevista s) (total s) = Finite 0" by (simp add: perc_zero)
next
  assume "total s = 0"
  then show "perc (rejeitado s) (total s) = Finite 0" by (simp add: perc_zero)
qed

theorem displayed_percentages_witness:
  "(\<exists>cards. renderStats sample_Date_parse sample_stats \<lparr>document = stats_dom, clock_ms = 1707523200000\<rparr>
       = Some (StatsCards cards)
     \<and> percEsperando cards = Finite 33 \<and> percEntrevista cards = Finite 67
     \<and> percRejeitado cards = Finite 0
     \<and> whole_percentage (percEsperando cards)
     \<and> whole_percentage (percEntrevista cards)
     \<and> whole_percentage (percRejeitado cards)
     \<and> rounded_percentage (percEsperando cards) 1 3
     \<and> rounded_percentage (percEntrevista cards) 2 3
     \<and> rounded_percentage (percRejeitado cards) 0 3
     \<and> shown_taxa_conversao cards = 67)
   \<and> renderStats sample_Date_parse (sample_stats\<lparr>total := 0, esperando := 0, entrevista := 0, rejeitado := 0\<rparr>)
        \<lparr>document = stats_dom, clock_ms = 1707523200000\<rparr> = Some EmptyStats"
proof -
  let ?w = "\<lparr>document = stats_dom, clock_ms = 1707523200000\<rparr>"
  let ?z = "sample_stats\<lparr>total := 0, esperando := 0, entrevista := 0, rejeitado := 0\<rparr>"
  have el: "document ?w ''statsContainer'' = Some sample_element"
    by (simp add: stats_dom_def)
  have a: "esperando sample_stats \<le> total sample_stats" "entrevista sample_stats \<le> total sample_stats"
    "rejeitado sample_stats \<le> total sample_stats" "total sample_stats < 2 ^ 53"
    by (simp_all add: sample_stats_def)
  have b: "esperando ?z \<le> total ?z" "entrevista ?z \<le> total ?z"
    "rejeitado ?z \<le> total ?z" "total ?z < 2 ^ 53"
    by simp_all
  have v: "esperando sample_stats = 1" "entrevista sample_stats = 2" "rejeitado sample_stats = 0"
    "total sample_stats = 3" "taxa_conversao sample_stats = 67"
    by (simp_all add: sample_stats_def)
  have p: "perc 1 3 = Finite 33" "perc 2 3 = Finite 67" "perc 0 3 = Finite 0"
    by (rule perc_samples)+
  have e: "Math_round (js_mul (js_div (number_of_nat 1) (number_of_nat 3)) (Finite 100)) = Finite 33"
    "Math_round (js_mul (js_div (number_of_nat 2) (number_of_nat 3)) (Finite 100)) = Finite 67"
    "Math_round (js_mul (js_div (number_of_nat 0) (number_of_nat 3)) (Finite 100)) = Finite 0"
    using p perc_is_expression [of 3] by simp_all
  show ?thesis
    using displayed_percentages [OF el a, of sample_Date_parse]
      displayed_percentages [OF el b, of sample_Date_parse] v e
    by auto
qed

text \<open>
  Claim C3 as stated fails in two ways, since \<open>renderStats\<close> shows what it receives and checks
  nothing. With one application waiting, two at interview and the field
  \<^verbatim>\<open>taxa_conversao\<close> at 19, the conversion rate shown is 19, beside an interview share of 67:
  it is not the rounded \<open>100 * 2 / 3\<close>. With a count of 5 in a total of 3 the share shown is
  167, above 100.
\<close>

theorem displayed_percentages_unchecked:
  "renderStats sample_Date_parse (sample_stats\<lparr>taxa_conversao := 19\<rparr>)
      \<lparr>document = stats_dom, clock_ms = 1707523200000\<rparr>
     = Some (StatsCards
         \<lparr>shown_total = 3,
          shown_esperando = 1, percEsperando = Finite 33,
          shown_entrevista = 2, percEntrevista = Finite 67,
          shown_rejeitado = 0, percRejeitado = Finite 0,
          shown_taxa_conversao = 19, taxa_class = ''text-warning'',
          shown_empresa_top = Some (''Acme'', 2), shown_mes_mais_ativo = Some (''2024-01'', 2),
          shown_primeira_candidatura = Some ''2024-01-05'', shown_ultima_entrevista = None,
          shown_diasUso = Finite 36\<rparr>)
   \<and> renderStats sample_Date_parse (sample_stats\<lparr>esperando := 5\<rparr>)
      \<lparr>document = stats_dom, clock_ms = 1707523200000\<rparr>
     = Some (StatsCards
         \<lparr>shown_total = 3,
          shown_esperando = 5, percEsperando = Finite 167,
          shown_entrevista = 2, percEntrevista = Finite 67,
          shown_rejeitado = 0, percRejeitado = Finite 0,
          shown_taxa_conversao = 67, taxa_class = ''text-success'',
          shown_empresa_top = Some (''Acme'', 2), shown_mes_mais_ativo = Some (''2024-01'', 2),
          shown_primeira_candidatura = Some ''2024-01-05'', shown_ultima_entrevista = None,
          shown_diasUso = Finite 36\<rparr>)"
proof -
  have a: "sample_Date_parse ''2024-01-05'' = Some 1704412800000" "''2024-01-05'' \<noteq> []"
    by (simp_all add: sample_Date_parse_def)
  have "diasUso sample_Date_parse 1707523200000 (Some ''2024-01-05'')
         = Finite (of_int ((1707523200000 - 1704412800000) div 86400000))"
    using a by (intro diasUso_value) simp_all
  then have d: "diasUso sample_Date_parse 1707523200000 (Some ''2024-01-05'') = Finite 36"
    by simp
  have p: "perc (Suc 0) 3 = Finite 33" "perc 2 3 = Finite 67" "perc 0 3 = Finite 0"
    "perc 5 3 = Finite 167"
    using perc_samples by simp_all
  show ?thesis
    by (simp add: renderStats_def Let_def sample_stats_def stats_dom_def truthy_string_def d p)
qed

text \<open>
  Claim C4, as the code has it. When the earliest application date parses to the time value
  \<open>p\<close> and lies within \<open>2\<^sup>5\<^sup>3\<close> milliseconds of the clock, the days in use are the floor of
  the elapsed days \<open>(clock - p) / 86400000\<close>; the value is not negative exactly when the date
  is not after the clock. Without an earliest date the value is 0.
\<close>

theorem days_in_use_floor:
  assumes "Date_parse s = Some p" and "s \<noteq> []" and "\<bar>clock - p\<bar> < 2 ^ 53"
  shows "diasUso Date_parse clock (Some s) = Finite (of_int \<lfloor>(of_int (clock - p) :: rat) / 86400000\<rfloor>)
     \<and> (0 \<le> \<lfloor>(of_int (clock - p) :: rat) / 86400000\<rfloor> \<longleftrightarrow> p \<le> clock)
     \<and> diasUso Date_parse clock None = Finite 0"
proof -
  have sign: "0 \<le> (clock - p) div 86400000 \<longleftrightarrow> p \<le> clock"
    by (simp add: pos_imp_zdiv_nonneg_iff)
  have v: "diasUso Date_parse clock (Some s) = Finite (of_int ((clock - p) div 86400000))"
    using assms by (rule diasUso_value)
  have z: "diasUso Date_parse clock None = Finite 0"
    by (simp add: diasUso_def)
  show ?thesis
    unfolding floor_days using sign v z by blast
qed

theorem days_in_use_floor_witness:
  "diasUso sample_Date_parse 1707523200000 (Some ''2024-01-05'') = Finite 36
   \<and> diasUso sample_Date_parse 1706522400000 (Some ''2024-02-01'') = Finite (- 3)
   \<and> diasUso sample_Date_parse 1707523200000 None = Finite 0"
proof -
  have a: "sample_Date_parse ''2024-01-05'' = Some 1704412800000" "''2024-01-05'' \<noteq> []"
    "\<bar>1707523200000 - 1704412800000\<bar> < (2::int) ^ 53"
    by (simp_all add: sample_Date_parse_def)
  have b: "sample_Date_parse ''2024-02-01'' = Some 1706745600000" "''2024-02-01'' \<noteq> []"
    "\<bar>1706522400000 - 1706745600000\<bar> < (2::int) ^ 53"
    by (simp_all add: sample_Date_parse_def)
  have f: "(1707523200000 - 1704412800000) div 86400000 = (36::int)"
    "(1706522400000 - 1706745600000) div 86400000 = (- 3::int)"
    by simp_all
  show ?thesis
    using days_in_use_floor [of sample_Date_parse "''2024-01-05''" 1704412800000 1707523200000,
        unfolded floor_days f]
      days_in_use_floor [of sample_Date_parse "''2024-02-01''" 1706745600000 1706522400000,
        unfolded floor_days f]
      a b
    by simp
qed

text \<open>
  Claim C4 as stated fails: for an earliest date in the future the value is negative, not 0.
  At 2024-01-29 10:00 UTC, with the earliest date 2024-02-01, the code shows -3 days.
\<close>

theorem days_in_use_negative:
  "sample_Date_parse ''2024-02-01'' = Some 1706745600000
   \<and> (1706522400000::int) < 1706745600000
   \<and> diasUso sample_Date_parse 1706522400000 (Some ''2024-02-01'') = Finite (- 3)"
proof -
  have b: "sample_Date_parse ''2024-02-01'' = Some 1706745600000" "''2024-02-01'' \<noteq> []"
    "\<bar>1706522400000 - 1706745600000\<bar> < (2::int) ^ 53"
    by (simp_all add: sample_Date_parse_def)
  have "(1706522400000 - 1706745600000) div 86400000 = (- 3 :: int)" by simp
  with diasUso_value [of sample_Date_parse "''2024-02-01''" 1706745600000 1706522400000] b
  show ?thesis by simp
qed

section \<open>Determinism and the clock\<close>

text \<open>
  Claim C5 as stated fails: \<open>renderStats\<close> has one parameter, the statistics object, and
  reads the clock of the machine itself. Two calls with the same statistics in the same
  document, one day apart, differ (in the days in use: 36 and 37).
\<close>

theorem renderStats_reads_clock:
  "document \<lparr>document = stats_dom, clock_ms = 1707523200000\<rparr>
     = document \<lparr>document = stats_dom, clock_ms = 1707609600000\<rparr>
   \<and> renderStats sample_Date_parse sample_stats \<lparr>document = stats_dom, clock_ms = 1707523200000\<rparr>
     \<noteq> renderStats sample_Date_parse sample_stats \<lparr>document = stats_dom, clock_ms = 1707609600000\<rparr>"
proof -
  have a: "sample_Date_parse ''2024-01-05'' = Some 1704412800000" "''2024-01-05'' \<noteq> []"
    by (simp_all add: sample_Date_parse_def)
  have "diasUso sample_Date_parse 1707523200000 (Some ''2024-01-05'')
         = Finite (of_int ((1707523200000 - 1704412800000) div 86400000))"
    using a by (intro diasUso_value) simp_all
  moreover have "diasUso sample_Date_parse 1707609600000 (Some ''2024-01-05'')
         = Finite (of_int ((1707609600000 - 1704412800000) div 86400000))"
    using a by (intro diasUso_value) simp_all
  ultimately show ?thesis
    by (simp add: renderStats_def Let_def sample_stats_def stats_dom_def)
qed

text \<open>Writing the same text twice, or two different elements in either order, is the same.\<close>

lemma setText_twice: "setText i v (setText i v d) = setText i v d"
  by (auto simp: setText_def fun_eq_iff split: option.splits)

lemma setText_commute: "i \<noteq> j \<Longrightarrow> setText i v (setText j u d) = setText j u (setText i v d)"
  by (auto simp: setText_def fun_eq_iff split: option.splits)

lemma setText_absorb:
  assumes "i \<noteq> j"
  shows "setText i v (setText j u (setText i v d)) = setText j u (setText i v d)"
  using assms by (simp add: setText_commute [of i j v u] setText_twice)

text \<open>A second call of \<open>updateStats\<close> with the same list leaves the document of the first.\<close>

lemma updateStats_twice: "updateStats apps (updateStats apps d) = updateStats apps d"
proof -
  define a where "a = counter_String (status_counts apps ''esperando'')"
  define b where "b = counter_String (status_counts apps ''entrevista'')"
  define c where "c = counter_String (status_counts apps ''rejeitado'')"
  define e where "e = counter_String (status_counts apps ''total'')"
  define d1 where "d1 = setText ''statEsperando'' a d"
  define d2 where "d2 = setText ''statEntrevista'' b d1"
  define d3 where "d3 = setText ''statRejeitado'' c d2"
  define d4 where "d4 = setText ''statTotal'' e d3"
  have u: "\<And>x. updateStats apps x =
      setText ''statTotal'' e (setText ''statRejeitado'' c (setText ''statEntrevista'' b
        (setText ''statEsperando'' a x)))"
    by (simp add: updateStats_def Let_def a_def b_def c_def e_def)
  have t: "setText ''statTotal'' e d4 = d4"
    unfolding d4_def by (rule setText_twice)
  have r: "setText ''statRejeitado'' c d4 = d4"
    unfolding d4_def d3_def
    by (simp add: setText_commute [of "''statRejeitado''" "''statTotal''"] setText_twice)
  have n: "setText ''statEntrevista'' b d4 = d4"
    unfolding d4_def d3_def d2_def
    by (simp add: setText_commute [of "''statEntrevista''" "''statTotal''"]
        setText_commute [of "''statEntrevista''" "''statRejeitado''"] setText_twice)
  have w: "setText ''statEsperando'' a d4 = d4"
    unfolding d4_def d3_def d2_def d1_def
    by (simp add: setText_commute [of "''statEsperando''" "''statTotal''"]
        setText_commute [of "''statEsperando''" "''statRejeitado''"]
        setText_commute [of "''statEsperando''" "''statEntrevista''"] setText_twice)
  have "updateStats apps d = d4"
    by (simp add: u d4_def d3_def d2_def d1_def)
  moreover have "updateStats apps d4 = d4"
    by (simp add: u w n r t)
  ultimately show ?thesis by simp
qed

text \<open>
  Claim C5, as the code has it. What \<open>renderStats\<close> writes is determined by the statistics
  object, the reading of the clock and whether the document has the container: two calls
  that agree on these agree on the output. \<open>updateStats\<close> reads no clock, and calling it
  again with the same list changes nothing.
\<close>

theorem stats_fixed_clock_deterministic:
  assumes "clock_ms w1 = clock_ms w2"
    and "document w1 ''statsContainer'' = None \<longleftrightarrow> document w2 ''statsContainer'' = None"
  shows "renderStats P s w1 = renderStats P s w2
     \<and> updateStats apps (updateStats apps d) = updateStats apps d"
  using assms by (auto simp: renderStats_def updateStats_twice split: option.splits)

theorem stats_fixed_clock_deterministic_witness:
  "renderStats sample_Date_parse sample_stats \<lparr>document = stats_dom, clock_ms = 1707523200000\<rparr>
     = renderStats sample_Date_parse sample_stats \<lparr>document = sample_dom(''statsContainer'' \<mapsto> sample_element), clock_ms = 1707523200000\<rparr>
   \<and> updateStats [sample_application] (updateStats [sample_application] stats_dom)
       = updateStats [sample_application] stats_dom"
proof -
  have "clock_ms \<lparr>document = stats_dom, clock_ms = 1707523200000\<rparr>
      = clock_ms \<lparr>document = sample_dom(''statsContainer'' \<mapsto> sample_element), clock_ms = 1707523200000\<rparr>"
    by simp
  moreover have "document \<lparr>document = stats_dom, clock_ms = 1707523200000\<rparr> ''statsContainer'' = None
     \<longleftrightarrow> document \<lparr>document = sample_dom(''statsContainer'' \<mapsto> sample_element), clock_ms = 1707523200000\<rparr> ''statsContainer'' = None"
    by (simp add: stats_dom_def)
  ultimately show ?thesis
    by (rule stats_fixed_clock_deterministic)
qed

end
